theory Spec2Isabelle
  imports Complex_Main
begin

section \<open>Data model\<close>

text \<open>
  Prices, sizes and indicator values are Python floats in the source; they are modelled as
  exact reals, so the statements below are about the arithmetic the code writes down, not
  about IEEE rounding, infinities or NaN; rounding is written out only in the section on
  bookkeeping in double precision. A data frame is the list of its rows, addressed by
  position as the source does with \<^verbatim>\<open>iloc\<close>. The indicator columns
  (\<^verbatim>\<open>ATR\<close>, \<^verbatim>\<open>RSI\<close>, \<^verbatim>\<open>MACD_Hist\<close>, ...) are computed by TA-Lib and pandas
  and are read-only input to everything modelled here, so each row carries them as fields.
  Column \<^verbatim>\<open>Volatility_Regime\<close> only ever holds 0, 1 or 2
  (\<^verbatim>\<open>_calculate_volatility_regime\<close>), which is the three-valued type \<open>regime\<close>.
  \<open>Date\<close> is the row's index label (\<^verbatim>\<open>df.index[idx]\<close>).
\<close>

datatype regime = LowVol | NormalVol | HighVol

record bar =
  Date :: nat
  Open :: real
  High :: real
  Low :: real
  Close :: real
  Volume :: real
  ATR :: real
  Volatility_Regime :: regime
  Historical_Volatility :: real
  RSI :: real
  MACD_Hist :: real
  BB_Upper :: real
  BB_Lower :: real

type_synonym dataframe = "bar list"

text \<open>\<^verbatim>\<open>series.iloc[a:b]\<close> for \<open>a \<le> b\<close>, and the pandas reductions used on such slices.\<close>

definition slice :: "'a list \<Rightarrow> nat \<Rightarrow> nat \<Rightarrow> 'a list" where
  "slice xs a b = take (b - a) (drop a xs)"

definition mean :: "real list \<Rightarrow> real" where
  "mean xs = sum_list xs / real (length xs)"

definition series_max :: "real list \<Rightarrow> real" where
  "series_max xs = fold max (tl xs) (hd xs)"

definition series_min :: "real list \<Rightarrow> real" where
  "series_min xs = fold min (tl xs) (hd xs)"

datatype position_type = Long | Short

datatype error = ZeroDivisionError | TypeError | AttributeError

record VolatilityParams =
  atr_period :: nat
  volatility_lookback :: nat
  std_dev_period :: nat
  bollinger_bands_std :: real
  minimum_atr_value :: real

definition default_VolatilityParams :: VolatilityParams where
  "default_VolatilityParams =
     \<lparr>atr_period = 14, volatility_lookback = 20, std_dev_period = 20,
      bollinger_bands_std = 2, minimum_atr_value = 0.001\<rparr>"

section \<open>Candlestick patterns\<close>

text \<open>
  Indices are naturals, so the source's \<^verbatim>\<open>idx < 0\<close> guards never fire and are left out.
\<close>

definition is_engulfing :: "dataframe \<Rightarrow> nat \<Rightarrow> bool \<times> bool" where
  "is_engulfing df idx =
     (if idx < 1 then (False, False)
      else
        let curr_open = Open (df ! idx); curr_close = Close (df ! idx);
            prev_open = Open (df ! (idx - 1)); prev_close = Close (df ! (idx - 1));
            bullish_engulfing =
              (prev_close < prev_open \<and> curr_close > curr_open \<and>
               curr_open < prev_close \<and> curr_close > prev_open);
            bearish_engulfing =
              (prev_close > prev_open \<and> curr_close < curr_open \<and>
               curr_open > prev_close \<and> curr_close < prev_open)
        in (bullish_engulfing, bearish_engulfing))"

definition is_doji :: "dataframe \<Rightarrow> nat \<Rightarrow> real \<Rightarrow> bool" where
  "is_doji df idx threshold =
     (let body_size = \<bar>Close (df ! idx) - Open (df ! idx)\<bar>;
          high_low_range = High (df ! idx) - Low (df ! idx)
      in body_size \<le> high_low_range * threshold)"

definition is_hammer :: "dataframe \<Rightarrow> nat \<Rightarrow> bool" where
  "is_hammer df idx =
     (let body_size = \<bar>Close (df ! idx) - Open (df ! idx)\<bar>;
          lower_wick = min (Open (df ! idx)) (Close (df ! idx)) - Low (df ! idx);
          upper_wick = High (df ! idx) - max (Open (df ! idx)) (Close (df ! idx))
      in lower_wick > 2 * body_size \<and> upper_wick < 0.1 * body_size)"

definition is_shooting_star :: "dataframe \<Rightarrow> nat \<Rightarrow> bool" where
  "is_shooting_star df idx =
     (let body_size = \<bar>Close (df ! idx) - Open (df ! idx)\<bar>;
          lower_wick = min (Open (df ! idx)) (Close (df ! idx)) - Low (df ! idx);
          upper_wick = High (df ! idx) - max (Open (df ! idx)) (Close (df ! idx))
      in upper_wick > 2 * body_size \<and> lower_wick < 0.1 * body_size)"

definition is_marubozu :: "dataframe \<Rightarrow> nat \<Rightarrow> real \<Rightarrow> bool \<times> bool" where
  "is_marubozu df idx threshold =
     (let open_price = Open (df ! idx); close_price = Close (df ! idx);
          high_price = High (df ! idx); low_price = Low (df ! idx);
          body_size = \<bar>close_price - open_price\<bar>;
          total_range = high_price - low_price
      in if body_size < total_range * 0.9 then (False, False)
         else
           (close_price > open_price \<and>
              high_price - close_price \<le> threshold * body_size \<and>
              open_price - low_price \<le> threshold * body_size,
            close_price < open_price \<and>
              high_price - open_price \<le> threshold * body_size \<and>
              close_price - low_price \<le> threshold * body_size))"

section \<open>Momentum patterns\<close>

definition is_breakout_candle :: "dataframe \<Rightarrow> nat \<Rightarrow> nat \<Rightarrow> bool \<times> bool" where
  "is_breakout_candle df idx lookback =
     (if idx < lookback then (False, False)
      else
        let window = slice df (idx - lookback) idx;
            candle_sizes = map (\<lambda>b. \<bar>Close b - Open b\<bar>) window;
            avg_size = mean candle_sizes;
            current_size = \<bar>Close (df ! idx) - Open (df ! idx)\<bar>;
            is_large_candle = (current_size > 2 * avg_size);
            lookback_high = series_max (map High window);
            lookback_low = series_min (map Low window);
            consolidation_range = lookback_high - lookback_low;
            avg_price = mean (map Close window);
            is_consolidation = (consolidation_range < 0.2 * avg_price)
        in if \<not> (is_large_candle \<and> is_consolidation) then (False, False)
           else
             (Close (df ! idx) > Open (df ! idx) \<and> Close (df ! idx) > lookback_high,
              Close (df ! idx) < Open (df ! idx) \<and> Close (df ! idx) < lookback_low))"

definition is_momentum_confirmed :: "dataframe \<Rightarrow> nat \<Rightarrow> real \<Rightarrow> bool" where
  "is_momentum_confirmed df idx volume_threshold =
     (if idx < 20 then False
      else
        let avg_volume = mean (map Volume (slice df (idx - 20) idx));
            current_volume = Volume (df ! idx)
        in current_volume > volume_threshold * avg_volume)"

definition calculate_momentum_score :: "dataframe \<Rightarrow> nat \<Rightarrow> real" where
  "calculate_momentum_score df idx =
     (if idx < 20 then 0
      else
        let short_term_return =
              (Close (df ! idx) - Close (df ! (idx - 5))) / Close (df ! (idx - 5));
            medium_term_return =
              (Close (df ! idx) - Close (df ! (idx - 20))) / Close (df ! (idx - 20));
            momentum_score = 0.7 * short_term_return + 0.3 * medium_term_return
        in max (min momentum_score 1) (- 1))"

section \<open>Momentum indicators\<close>

record signals =
  rsi_overbought :: bool
  rsi_oversold :: bool
  macd_bullish_cross :: bool
  macd_bearish_cross :: bool
  bb_upper_break :: bool
  bb_lower_break :: bool

definition get_momentum_signals :: "dataframe \<Rightarrow> nat \<Rightarrow> signals" where
  "get_momentum_signals df idx =
     (if idx < 1 then
        \<lparr>rsi_overbought = False, rsi_oversold = False, macd_bullish_cross = False,
         macd_bearish_cross = False, bb_upper_break = False, bb_lower_break = False\<rparr>
      else
        let current_rsi = RSI (df ! idx);
            prev_hist = MACD_Hist (df ! (idx - 1));
            curr_hist = MACD_Hist (df ! idx);
            close = Close (df ! idx)
        in \<lparr>rsi_overbought = (current_rsi > 70), rsi_oversold = (current_rsi < 30),
            macd_bullish_cross = (prev_hist < 0 \<and> curr_hist > 0),
            macd_bearish_cross = (prev_hist > 0 \<and> curr_hist < 0),
            bb_upper_break = (close > BB_Upper (df ! idx)),
            bb_lower_break = (close < BB_Lower (df ! idx))\<rparr>)"

text \<open>
  \<^verbatim>\<open>np.polyfit(x, prices, 1)\<close> with \<open>x = 0, 1, ..., n - 1\<close>: the slope of the least-squares
  line, in closed form.
\<close>

definition polyfit_slope :: "real list \<Rightarrow> real" where
  "polyfit_slope prices =
     (let n = real (length prices);
          xs = map real [0..<length prices];
          sx = sum_list xs;
          sy = sum_list prices;
          sxy = sum_list (map2 (*) xs prices);
          sxx = sum_list (map (\<lambda>x. x * x) xs)
      in (n * sxy - sx * sy) / (n * sxx - sx * sx))"

definition get_trend_strength :: "dataframe \<Rightarrow> nat \<Rightarrow> nat \<Rightarrow> real" where
  "get_trend_strength df idx window =
     (if idx < window then 0
      else
        let prices = map Close (slice df (idx - window) (idx + 1));
            slope = polyfit_slope prices
        in tanh (slope * 100))"

section \<open>Volatility indicators\<close>

definition regime_multipliers :: "regime \<Rightarrow> real" where
  "regime_multipliers r = (case r of LowVol \<Rightarrow> 1.5 | NormalVol \<Rightarrow> 1 | HighVol \<Rightarrow> 0.75)"

definition regime_adjustments :: "regime \<Rightarrow> real" where
  "regime_adjustments r = (case r of LowVol \<Rightarrow> 1.2 | NormalVol \<Rightarrow> 1 | HighVol \<Rightarrow> 0.8)"

text \<open>\<^verbatim>\<open>(None, None)\<close> of the source is \<open>None\<close> here.\<close>

definition get_dynamic_stops ::
  "VolatilityParams \<Rightarrow> dataframe \<Rightarrow> nat \<Rightarrow> real \<Rightarrow> (real \<times> real) option" where
  "get_dynamic_stops params df idx base_multiplier =
     (if idx < 1 then None
      else
        let current_atr = max (ATR (df ! idx)) (minimum_atr_value params);
            rg = Volatility_Regime (df ! idx);
            adjusted_multiplier = base_multiplier * regime_multipliers rg;
            stop_distance = current_atr * adjusted_multiplier;
            take_profit_distance = stop_distance * 2
        in Some (stop_distance, take_profit_distance))"

definition get_volatility_adjusted_position_size ::
  "VolatilityParams \<Rightarrow> dataframe \<Rightarrow> nat \<Rightarrow> real \<Rightarrow> real \<Rightarrow> real \<Rightarrow> real" where
  "get_volatility_adjusted_position_size params df idx base_position min_size max_size =
     (if idx < volatility_lookback params then base_position
      else
        let current_vol = Historical_Volatility (df ! idx);
            avg_vol = mean (map Historical_Volatility
                              (slice df (idx - volatility_lookback params) idx));
            vol_ratio = avg_vol / max current_vol 0.001;
            rg = Volatility_Regime (df ! idx);
            adjusted_position = base_position * vol_ratio * regime_adjustments rg
        in max (min adjusted_position max_size) min_size)"

section \<open>Entry rules\<close>

text \<open>
  The third component of the source's result, the \<^verbatim>\<open>signal_details\<close> trace, is written
  but never read by the engine and is left out.
\<close>

definition check_entry_signals :: "dataframe \<Rightarrow> nat \<Rightarrow> bool \<times> bool" where
  "check_entry_signals df idx =
     (if idx < 20 then (False, False)
      else
        let (bull_engulf, bear_engulf) = is_engulfing df idx;
            doji = is_doji df idx 0.1;
            hammer = is_hammer df idx;
            shooting_star = is_shooting_star df idx;
            (bull_marubozu, bear_marubozu) = is_marubozu df idx 0.1;
            (bull_breakout, bear_breakout) = is_breakout_candle df idx 20;
            momentum_confirmed = is_momentum_confirmed df idx 1.5;
            momentum_score = calculate_momentum_score df idx;
            indicator_signals = get_momentum_signals df idx;
            trend_strength = get_trend_strength df idx 50;
            bullish_entry =
              ((bull_engulf \<or> (doji \<and> momentum_score > 0) \<or> hammer \<or> bull_marubozu \<or>
                bull_breakout) \<and>
               momentum_confirmed \<and> trend_strength > 0.3 \<and>
               \<not> rsi_overbought indicator_signals);
            bearish_entry =
              ((bear_engulf \<or> (doji \<and> momentum_score < 0) \<or> shooting_star \<or> bear_marubozu \<or>
                bear_breakout) \<and>
               momentum_confirmed \<and> trend_strength < - 0.3 \<and>
               \<not> rsi_oversold indicator_signals)
        in (bullish_entry, bearish_entry))"

definition calculate_position_size ::
  "VolatilityParams \<Rightarrow> dataframe \<Rightarrow> nat \<Rightarrow> real \<Rightarrow> real" where
  "calculate_position_size params df idx base_position =
     (let momentum_score = \<bar>calculate_momentum_score df idx\<bar>;
          momentum_factor = 0.5 + momentum_score * 0.5;
          vol_adjusted_size =
            get_volatility_adjusted_position_size params df idx base_position 0.25 2
      in vol_adjusted_size * momentum_factor)"

section \<open>Exit rules\<close>

definition check_exit_signals :: "dataframe \<Rightarrow> nat \<Rightarrow> position_type \<Rightarrow> bool" where
  "check_exit_signals df idx ptype =
     (if idx < 1 then False
      else
        let (bull_engulf, bear_engulf) = is_engulfing df idx;
            shooting_star = is_shooting_star df idx;
            hammer = is_hammer df idx;
            momentum_score = calculate_momentum_score df idx;
            trend_strength = get_trend_strength df idx 50;
            indicator_signals = get_momentum_signals df idx
        in if ptype = Long then
             (bear_engulf \<or> shooting_star \<or>
              (momentum_score < - 0.3 \<and> trend_strength < 0) \<or>
              macd_bearish_cross indicator_signals \<or> rsi_overbought indicator_signals)
           else
             (bull_engulf \<or> hammer \<or>
              (momentum_score > 0.3 \<and> trend_strength > 0) \<or>
              macd_bullish_cross indicator_signals \<or> rsi_oversold indicator_signals))"

text \<open>
  Arithmetic on the \<^verbatim>\<open>None\<close> that \<^verbatim>\<open>get_dynamic_stops\<close> returns for \<open>idx < 1\<close> would raise
  \<^verbatim>\<open>TypeError\<close>; the guard in front keeps that branch from being reached.
\<close>

definition calculate_trailing_stop ::
  "VolatilityParams \<Rightarrow> dataframe \<Rightarrow> nat \<Rightarrow> position_type \<Rightarrow> real \<Rightarrow> error + real" where
  "calculate_trailing_stop params df idx ptype entry =
     (if idx < 1 then Inr entry
      else
        case get_dynamic_stops params df idx 2 of
          None \<Rightarrow> Inl TypeError
        | Some (stop_distance, _) \<Rightarrow>
            let current_price = Close (df ! idx)
            in if ptype = Long then
                 Inr (max (current_price - stop_distance * 1.5) (entry * 0.99))
               else
                 Inr (min (current_price + stop_distance * 1.5) (entry * 1.01)))"

section \<open>Backtest engine\<close>

text \<open>
  \<^verbatim>\<open>Position\<close> is the source's dataclass (\<open>ptype\<close> and \<open>psize\<close> are its fields
  \<^verbatim>\<open>type\<close> and \<^verbatim>\<open>size\<close>); \<open>Trade\<close> is the dictionary appended to the ledger, with its keys
  prefixed by \<open>t_\<close>. The rule objects held by the engine are stateless apart from the
  parameters of their volatility indicators, so \<open>entry_rules\<close> and \<open>exit_rules\<close> hold those.
\<close>

record Position =
  ptype :: position_type
  entry_price :: real
  entry_time :: nat
  psize :: real
  stop_loss :: real
  take_profit :: real
  trailing_stop :: real
  trade_id :: nat

record Trade =
  t_id :: nat
  t_type :: position_type
  t_entry_time :: nat
  t_entry_price :: real
  t_exit_time :: nat
  t_exit_price :: real
  t_size :: real
  t_pnl :: real
  t_exit_reason :: string

record BacktestEngine =
  entry_rules :: VolatilityParams
  exit_rules :: VolatilityParams
  initial_capital :: real
  position_size :: real
  equity :: real
  current_position :: "Position option"
  trades :: "Trade list"
  equity_curve :: "real list"
  trade_count :: nat

record Results =
  r_initial_capital :: real
  r_final_equity :: real
  r_total_return :: real
  r_trades :: "Trade list"
  r_equity_curve :: "real list"
  r_trade_count :: nat
  r_win_rate :: real
  r_average_trade :: real
  r_max_drawdown :: real

definition reset :: "BacktestEngine \<Rightarrow> BacktestEngine" where
  "reset e =
     e\<lparr>equity := initial_capital e, current_position := None, trades := [],
       equity_curve := [], trade_count := 0\<rparr>"

definition open_position ::
  "BacktestEngine \<Rightarrow> position_type \<Rightarrow> real \<Rightarrow> nat \<Rightarrow> real \<Rightarrow> real \<Rightarrow> real \<Rightarrow> BacktestEngine" where
  "open_position e ty price time sz sl tp =
     (let e1 = e\<lparr>trade_count := trade_count e + 1\<rparr>
      in e1\<lparr>current_position :=
              Some \<lparr>ptype = ty, entry_price = price, entry_time = time, psize = sz,
                    stop_loss = sl, take_profit = tp, trailing_stop = sl,
                    trade_id = trade_count e1\<rparr>\<rparr>)"

text \<open>Reading a field of \<^verbatim>\<open>self.current_position\<close> when it is \<^verbatim>\<open>None\<close> raises \<^verbatim>\<open>AttributeError\<close>.\<close>

definition close_position ::
  "BacktestEngine \<Rightarrow> real \<Rightarrow> nat \<Rightarrow> string \<Rightarrow> error + BacktestEngine" where
  "close_position e exit_price exit_time exit_reason =
     (case current_position e of
        None \<Rightarrow> Inl AttributeError
      | Some position \<Rightarrow>
          let pnl = (if ptype position = Long
                     then (exit_price - entry_price position) * psize position
                     else (entry_price position - exit_price) * psize position);
              e1 = e\<lparr>equity := equity e + pnl\<rparr>;
              trade = \<lparr>t_id = trade_id position, t_type = ptype position,
                       t_entry_time = entry_time position,
                       t_entry_price = entry_price position,
                       t_exit_time = exit_time, t_exit_price = exit_price,
                       t_size = psize position, t_pnl = pnl,
                       t_exit_reason = exit_reason\<rparr>;
              e2 = e1\<lparr>trades := trades e1 @ [trade]\<rparr>
          in Inr (e2\<lparr>current_position := None\<rparr>))"

definition check_position_exit :: "BacktestEngine \<Rightarrow> dataframe \<Rightarrow> nat \<Rightarrow> error + BacktestEngine" where
  "check_position_exit e df idx =
     (case current_position e of
        None \<Rightarrow> Inl AttributeError
      | Some position0 \<Rightarrow>
          (case calculate_trailing_stop (exit_rules e) df idx (ptype position0)
                  (entry_price position0) of
             Inl err \<Rightarrow> Inl err
           | Inr new_trailing_stop \<Rightarrow>
               let current_bar = df ! idx;
                   position = position0\<lparr>trailing_stop := new_trailing_stop\<rparr>;
                   e1 = e\<lparr>current_position := Some position\<rparr>;
                   hit_stop =
                     (ptype position = Long \<and> Low current_bar \<le> trailing_stop position \<or>
                      ptype position = Short \<and> High current_bar \<ge> trailing_stop position);
                   hit_target =
                     (ptype position = Long \<and> High current_bar \<ge> take_profit position \<or>
                      ptype position = Short \<and> Low current_bar \<le> take_profit position);
                   should_exit = check_exit_signals df idx (ptype position)
               in if hit_stop \<or> hit_target \<or> should_exit then
                    let exit_price =
                          (if hit_stop then trailing_stop position
                           else if hit_target then take_profit position
                           else Close current_bar)
                    in close_position e1 exit_price (Date (df ! idx))
                         (if hit_stop then ''Stop''
                          else if hit_target then ''Target'' else ''Signal'')
                  else Inr e1))"

definition check_new_entry :: "BacktestEngine \<Rightarrow> dataframe \<Rightarrow> nat \<Rightarrow> error + BacktestEngine" where
  "check_new_entry e df idx =
     (let (bullish, bearish) = check_entry_signals df idx
      in if bullish \<or> bearish then
           let position_type = (if bullish then Long else Short);
               price = Close (df ! idx);
               sz = calculate_position_size (entry_rules e) df idx (position_size e)
           in (case get_dynamic_stops (exit_rules e) df idx 2 of
                 None \<Rightarrow> Inl TypeError
               | Some (stop_distance, take_profit_distance) \<Rightarrow>
                   let sl = (if position_type = Long then price - stop_distance
                             else price + stop_distance);
                       tp = (if position_type = Long then price + take_profit_distance
                             else price - take_profit_distance)
                   in Inr (open_position e position_type price (Date (df ! idx)) sz sl tp))
         else Inr e)"

definition process_bar ::
  "BacktestEngine \<Rightarrow> dataframe \<Rightarrow> nat \<Rightarrow> error + (BacktestEngine \<times> real)" where
  "process_bar e df idx =
     (case (if current_position e \<noteq> None then check_position_exit e df idx
            else if idx \<ge> 20 then check_new_entry e df idx
            else Inr e) of
        Inl err \<Rightarrow> Inl err
      | Inr e' \<Rightarrow> Inr (e', equity e'))"

fun expanding_max_from :: "real \<Rightarrow> real list \<Rightarrow> real list" where
  "expanding_max_from m [] = []"
| "expanding_max_from m (x # xs) = max m x # expanding_max_from (max m x) xs"

definition expanding_max :: "real list \<Rightarrow> real list" where
  "expanding_max xs = (case xs of [] \<Rightarrow> [] | x # rest \<Rightarrow> x # expanding_max_from x rest)"

definition calculate_max_drawdown :: "real list \<Rightarrow> real" where
  "calculate_max_drawdown curve =
     (let rolling_max = expanding_max curve;
          drawdowns = map2 (-) curve rolling_max
      in \<bar>series_min drawdowns\<bar>)"

text \<open>
  \<^verbatim>\<open>win_rate\<close> divides two Python integers, the number of winning trades by
  \<^verbatim>\<open>len(self.trades)\<close>, which raises \<^verbatim>\<open>ZeroDivisionError\<close> on an empty ledger. With an empty
  ledger the equity is still the Python number given as initial capital, so
  \<^verbatim>\<open>total_return\<close>, evaluated just before, raises the same error when that is zero and
  is otherwise finite; either way the dictionary is never built. With a non-empty ledger
  every operand is a NumPy float and nothing raises.
\<close>

definition generate_results :: "BacktestEngine \<Rightarrow> error + Results" where
  "generate_results e =
     (if length (trades e) = 0 then Inl ZeroDivisionError
      else
        Inr \<lparr>r_initial_capital = initial_capital e,
             r_final_equity = equity e,
             r_total_return = (equity e - initial_capital e) / initial_capital e,
             r_trades = trades e,
             r_equity_curve = equity_curve e,
             r_trade_count = length (trades e),
             r_win_rate = real (length (filter (\<lambda>t. t_pnl t > 0) (trades e)))
                            / real (length (trades e)),
             r_average_trade = mean (map t_pnl (trades e)),
             r_max_drawdown = calculate_max_drawdown (equity_curve e)\<rparr>)"

text \<open>The body of the \<^verbatim>\<open>for idx in range(len(df))\<close> loop, over the indices still to come.\<close>

fun run_loop :: "BacktestEngine \<Rightarrow> dataframe \<Rightarrow> nat list \<Rightarrow> error + BacktestEngine" where
  "run_loop e df [] = Inr e"
| "run_loop e df (idx # rest) =
     (case process_bar e df idx of
        Inl err \<Rightarrow> Inl err
      | Inr (e', equity_snapshot) \<Rightarrow>
          run_loop (e'\<lparr>equity_curve := equity_curve e' @ [equity_snapshot]\<rparr>) df rest)"

text \<open>
  \<open>run_upto e df k\<close> is the engine after \<^verbatim>\<open>run\<close> has reset it and processed the first \<open>k\<close>
  bars; \<open>run_state\<close> is the engine at the end of the loop, \<open>run\<close> what the call returns.
\<close>

definition run_upto :: "BacktestEngine \<Rightarrow> dataframe \<Rightarrow> nat \<Rightarrow> error + BacktestEngine" where
  "run_upto e df k = run_loop (reset e) df [0..<k]"

definition run_state :: "BacktestEngine \<Rightarrow> dataframe \<Rightarrow> error + BacktestEngine" where
  "run_state e df = run_upto e df (length df)"

definition run :: "BacktestEngine \<Rightarrow> dataframe \<Rightarrow> error + Results" where
  "run e df =
     (case run_state e df of
        Inl err \<Rightarrow> Inl err
      | Inr e' \<Rightarrow> generate_results e')"

section \<open>Concrete inputs\<close>

text \<open>
  A two-bar frame on whose second bar a long position with entry price 90 and target 110
  has its trailing stop recomputed to 95 while the bar trades from 94 up to 112.
\<close>

definition fixture_bar :: bar where
  "fixture_bar =
     \<lparr>Date = 0, Open = 100, High = 112, Low = 94, Close = 99.5, Volume = 1000, ATR = 2,
      Volatility_Regime = HighVol, Historical_Volatility = 0.2, RSI = 50, MACD_Hist = 0,
      BB_Upper = 120, BB_Lower = 80\<rparr>"

definition fixture_df :: dataframe where
  "fixture_df = [fixture_bar\<lparr>Date := 0\<rparr>, fixture_bar\<lparr>Date := 1\<rparr>]"

definition fixture_position :: Position where
  "fixture_position =
     \<lparr>ptype = Long, entry_price = 90, entry_time = 0, psize = 1, stop_loss = 84,
      take_profit = 110, trailing_stop = 95, trade_id = 1\<rparr>"

definition fixture_engine :: BacktestEngine where
  "fixture_engine =
     \<lparr>entry_rules = default_VolatilityParams, exit_rules = default_VolatilityParams,
      initial_capital = 100000, position_size = 0.1, equity = 100000,
      current_position = Some fixture_position, trades = [], equity_curve = [],
      trade_count = 1\<rparr>"

text \<open>
  A 54-bar frame: fifty quiet red candles, a bullish engulfing candle on doubled volume at
  index 50, two bars on which the position stays open, and a last bar that trades through
  both the stop and the target. \<open>demo_engine\<close> is an engine as its constructor leaves it.
\<close>

definition flat_bar :: "nat \<Rightarrow> bar" where
  "flat_bar i =
     \<lparr>Date = i, Open = 100.5, High = 101, Low = 99, Close = 100, Volume = 1000, ATR = 1,
      Volatility_Regime = NormalVol, Historical_Volatility = 0.2, RSI = 50, MACD_Hist = 0,
      BB_Upper = 105, BB_Lower = 95\<rparr>"

definition demo_df :: dataframe where
  "demo_df =
     map flat_bar [0..<50] @
     [(flat_bar 50)\<lparr>Open := 99.5, High := 110.5, Low := 99, Close := 110, Volume := 2000,
                    RSI := 60\<rparr>,
      (flat_bar 51)\<lparr>Open := 111.5, High := 113.5, Low := 111, Close := 113, RSI := 60\<rparr>,
      (flat_bar 52)\<lparr>Open := 112.5, High := 113, Low := 111.5, Close := 112, RSI := 60\<rparr>,
      (flat_bar 53)\<lparr>Open := 112, High := 115, Low := 108, Close := 112, RSI := 60\<rparr>]"

definition demo_engine :: BacktestEngine where
  "demo_engine =
     \<lparr>entry_rules = default_VolatilityParams, exit_rules = default_VolatilityParams,
      initial_capital = 100000, position_size = 0.1, equity = 100000,
      current_position = None, trades = [], equity_curve = [], trade_count = 0\<rparr>"

definition demo_position :: Position where
  "demo_position =
     \<lparr>ptype = Long, entry_price = 110, entry_time = 50, psize = 11 / 80, stop_loss = 108,
      take_profit = 114, trailing_stop = 108, trade_id = 1\<rparr>"

definition demo_trade :: Trade where
  "demo_trade =
     \<lparr>t_id = 1, t_type = Long, t_entry_time = 50, t_entry_price = 110, t_exit_time = 53,
      t_exit_price = 109, t_size = 11 / 80, t_pnl = - (11 / 80), t_exit_reason = ''Stop''\<rparr>"

definition demo_state :: "Position option \<Rightarrow> nat \<Rightarrow> BacktestEngine" where
  "demo_state pos k =
     demo_engine\<lparr>trade_count := 1, current_position := pos,
                 equity_curve := replicate k 100000\<rparr>"

text \<open>The position held after the first \<open>k\<close> bars of a run, if the run got that far.\<close>

definition position_after :: "BacktestEngine \<Rightarrow> dataframe \<Rightarrow> nat \<Rightarrow> Position option" where
  "position_after e df k =
     (case run_upto e df k of Inl err \<Rightarrow> None | Inr s \<Rightarrow> current_position s)"

text \<open>
  Two variations of the sample run: an engine whose entry rules use a 60-bar volatility
  lookback, and the sample frame with the entry bar in the high-volatility regime.
\<close>

definition demo_engine_lookback60 :: BacktestEngine where
  "demo_engine_lookback60 =
     demo_engine\<lparr>entry_rules := default_VolatilityParams\<lparr>volatility_lookback := 60\<rparr>\<rparr>"

definition demo_df_high :: dataframe where
  "demo_df_high = demo_df[50 := (demo_df ! 50)\<lparr>Volatility_Regime := HighVol\<rparr>]"

section \<open>Bookkeeping in double precision\<close>

text \<open>
  Where rounding matters the float operations are written out. \<open>double_round\<close> rounds a
  real to the nearest binary64 value, ties to even, over the normal and subnormal range
  (overflow to infinity is left out): the magnitude is scaled by powers of two until it has
  53 significant bits, or the exponent reaches -1074, and is then rounded to an integer.
  \<open>close_position_double\<close> is \<^verbatim>\<open>_close_position\<close> with each of its three float operations
  rounded: the difference of the prices, its product with the size, and \<^verbatim>\<open>self.equity += pnl\<close>.
  \<open>double_gap\<close> reads off what the ledger identity compares: the rounded difference of equity
  and initial capital, and the pnl entries of the ledger.
\<close>

definition round_half_even :: "real \<Rightarrow> int" where
  "round_half_even x =
     (let f = \<lfloor>x\<rfloor>; d = x - of_int f
      in if d < 1 / 2 then f else if 1 / 2 < d then f + 1 else if even f then f else f + 1)"

fun normalise :: "nat \<Rightarrow> real \<Rightarrow> int \<Rightarrow> real \<times> int" where
  "normalise 0 m e = (m, e)"
| "normalise (Suc n) m e =
     (if 9007199254740992 \<le> m then normalise n (m / 2) (e + 1)
      else if m < 4503599627370496 \<and> - 1074 < e then normalise n (m * 2) (e - 1)
      else (m, e))"

definition double_round :: "real \<Rightarrow> real" where
  "double_round x =
     (if x = 0 then 0
      else let (m, e) = normalise 2200 \<bar>x\<bar> 0
           in sgn x * of_int (round_half_even m) * 2 powi e)"

definition close_position_double ::
  "BacktestEngine \<Rightarrow> real \<Rightarrow> nat \<Rightarrow> string \<Rightarrow> error + BacktestEngine" where
  "close_position_double e exit_price exit_time exit_reason =
     (case current_position e of
        None \<Rightarrow> Inl AttributeError
      | Some position \<Rightarrow>
          let pnl = (if ptype position = Long
                     then double_round (double_round (exit_price - entry_price position) *
                                          psize position)
                     else double_round (double_round (entry_price position - exit_price) *
                                          psize position));
              e1 = e\<lparr>equity := double_round (equity e + pnl)\<rparr>;
              trade = \<lparr>t_id = trade_id position, t_type = ptype position,
                       t_entry_time = entry_time position,
                       t_entry_price = entry_price position,
                       t_exit_time = exit_time, t_exit_price = exit_price,
                       t_size = psize position, t_pnl = pnl,
                       t_exit_reason = exit_reason\<rparr>;
              e2 = e1\<lparr>trades := trades e1 @ [trade]\<rparr>
          in Inr (e2\<lparr>current_position := None\<rparr>))"

definition double_gap :: "error + BacktestEngine \<Rightarrow> (real \<times> real list) option" where
  "double_gap r =
     (case r of
        Inl err \<Rightarrow> None
      | Inr e \<Rightarrow> Some (double_round (equity e - initial_capital e), map t_pnl (trades e)))"

section \<open>The engine, one bar at a time\<close>

lemma calculate_trailing_stop_Inr:
  "\<exists>ts. calculate_trailing_stop params df idx ty en = Inr ts"
  by (simp add: calculate_trailing_stop_def get_dynamic_stops_def Let_def)

lemma close_position_Some:
  "current_position e = Some p \<Longrightarrow>
   close_position e price time reason =
     Inr (e\<lparr>equity := equity e +
                 (if ptype p = Long then (price - entry_price p) * psize p
                  else (entry_price p - price) * psize p),
            trades := trades e @
              [\<lparr>t_id = trade_id p, t_type = ptype p, t_entry_time = entry_time p,
                t_entry_price = entry_price p, t_exit_time = time, t_exit_price = price,
                t_size = psize p,
                t_pnl = (if ptype p = Long then (price - entry_price p) * psize p
                         else (entry_price p - price) * psize p),
                t_exit_reason = reason\<rparr>],
            current_position := None\<rparr>)"
  by (simp add: close_position_def Let_def)

lemma check_position_exit_step:
  assumes "current_position e = Some p"
    and "calculate_trailing_stop (exit_rules e) df idx (ptype p) (entry_price p) = Inr ts"
  shows "check_position_exit e df idx =
     (let hit_stop = (ptype p = Long \<and> Low (df ! idx) \<le> ts \<or>
                      ptype p = Short \<and> High (df ! idx) \<ge> ts);
          hit_target = (ptype p = Long \<and> High (df ! idx) \<ge> take_profit p \<or>
                        ptype p = Short \<and> Low (df ! idx) \<le> take_profit p)
      in if hit_stop \<or> hit_target \<or> check_exit_signals df idx (ptype p) then
           close_position (e\<lparr>current_position := Some (p\<lparr>trailing_stop := ts\<rparr>)\<rparr>)
             (if hit_stop then ts else if hit_target then take_profit p else Close (df ! idx))
             (Date (df ! idx))
             (if hit_stop then ''Stop'' else if hit_target then ''Target'' else ''Signal'')
         else Inr (e\<lparr>current_position := Some (p\<lparr>trailing_stop := ts\<rparr>)\<rparr>))"
  using assms by (simp add: check_position_exit_def Let_def)

text \<open>What one bar can do to an engine that holds a position: keep it, or close it.\<close>
lemma check_position_exit_outcome:
  assumes "current_position e = Some p"
  shows "\<exists>ts. calculate_trailing_stop (exit_rules e) df idx (ptype p) (entry_price p) = Inr ts \<and>
      (check_position_exit e df idx = Inr (e\<lparr>current_position := Some (p\<lparr>trailing_stop := ts\<rparr>)\<rparr>) \<or>
       (\<exists>price reason.
          check_position_exit e df idx =
            Inr (e\<lparr>current_position := None,
                   equity := equity e +
                     (if ptype p = Long then (price - entry_price p) * psize p
                      else (entry_price p - price) * psize p),
                   trades := trades e @
                     [\<lparr>t_id = trade_id p, t_type = ptype p, t_entry_time = entry_time p,
                       t_entry_price = entry_price p, t_exit_time = Date (df ! idx),
                       t_exit_price = price, t_size = psize p,
                       t_pnl = (if ptype p = Long then (price - entry_price p) * psize p
                                else (entry_price p - price) * psize p),
                       t_exit_reason = reason\<rparr>]\<rparr>)))"
proof -
  obtain ts where ts: "calculate_trailing_stop (exit_rules e) df idx (ptype p) (entry_price p) = Inr ts"
    using calculate_trailing_stop_Inr by blast
  let ?e1 = "e\<lparr>current_position := Some (p\<lparr>trailing_stop := ts\<rparr>)\<rparr>"
  let ?hs = "ptype p = Long \<and> Low (df ! idx) \<le> ts \<or> ptype p = Short \<and> High (df ! idx) \<ge> ts"
  let ?ht = "ptype p = Long \<and> High (df ! idx) \<ge> take_profit p \<or>
             ptype p = Short \<and> Low (df ! idx) \<le> take_profit p"
  let ?price = "if ?hs then ts else if ?ht then take_profit p else Close (df ! idx)"
  let ?reason = "if ?hs then ''Stop'' else if ?ht then ''Target'' else ''Signal''"
  have cp: "current_position ?e1 = Some (p\<lparr>trailing_stop := ts\<rparr>)" by simp
  show ?thesis
  proof (cases "?hs \<or> ?ht \<or> check_exit_signals df idx (ptype p)")
    case False
    then have "check_position_exit e df idx = Inr ?e1"
      unfolding check_position_exit_step[OF assms ts] Let_def by (simp only: if_False)
    with ts show ?thesis by blast
  next
    case True
    then have "check_position_exit e df idx =
        close_position ?e1 ?price (Date (df ! idx)) ?reason"
      unfolding check_position_exit_step[OF assms ts] Let_def by (simp only: if_True)
    also have "\<dots> = Inr (e\<lparr>current_position := None,
                   equity := equity e +
                     (if ptype p = Long then (?price - entry_price p) * psize p
                      else (entry_price p - ?price) * psize p),
                   trades := trades e @
                     [\<lparr>t_id = trade_id p, t_type = ptype p, t_entry_time = entry_time p,
                       t_entry_price = entry_price p, t_exit_time = Date (df ! idx),
                       t_exit_price = ?price, t_size = psize p,
                       t_pnl = (if ptype p = Long then (?price - entry_price p) * psize p
                                else (entry_price p - ?price) * psize p),
                       t_exit_reason = ?reason\<rparr>]\<rparr>)"
      unfolding close_position_Some[OF cp] by simp
    finally show ?thesis using ts by blast
  qed
qed

lemma check_new_entry_outcome:
  assumes "1 \<le> idx"
  shows "check_new_entry e df idx = Inr e \<or>
     (\<exists>ty sz sl tp.
        check_new_entry e df idx =
          Inr (e\<lparr>trade_count := trade_count e + 1,
                 current_position :=
                   Some \<lparr>ptype = ty, entry_price = Close (df ! idx), entry_time = Date (df ! idx),
                         psize = sz, stop_loss = sl, take_profit = tp, trailing_stop = sl,
                         trade_id = trade_count e + 1\<rparr>\<rparr>))"
  using assms
  by (auto simp: check_new_entry_def get_dynamic_stops_def open_position_def Let_def
           split: prod.splits)

lemma process_bar_outcome:
  "\<exists>e'. process_bar e df idx = Inr (e', equity e') \<and>
     (e' = e \<and> current_position e = None \<or>
      (\<exists>ty sz sl tp.
         current_position e = None \<and> 20 \<le> idx \<and>
         e' = e\<lparr>trade_count := trade_count e + 1,
                current_position :=
                  Some \<lparr>ptype = ty, entry_price = Close (df ! idx), entry_time = Date (df ! idx),
                        psize = sz, stop_loss = sl, take_profit = tp, trailing_stop = sl,
                        trade_id = trade_count e + 1\<rparr>\<rparr>) \<or>
      (\<exists>p ts. current_position e = Some p \<and>
         e' = e\<lparr>current_position := Some (p\<lparr>trailing_stop := ts\<rparr>)\<rparr>) \<or>
      (\<exists>p price reason. current_position e = Some p \<and>
         e' = e\<lparr>current_position := None,
                equity := equity e +
                  (if ptype p = Long then (price - entry_price p) * psize p
                   else (entry_price p - price) * psize p),
                trades := trades e @
                  [\<lparr>t_id = trade_id p, t_type = ptype p, t_entry_time = entry_time p,
                    t_entry_price = entry_price p, t_exit_time = Date (df ! idx),
                    t_exit_price = price, t_size = psize p,
                    t_pnl = (if ptype p = Long then (price - entry_price p) * psize p
                             else (entry_price p - price) * psize p),
                    t_exit_reason = reason\<rparr>]\<rparr>))"
proof (cases "current_position e")
  case None
  show ?thesis
  proof (cases "20 \<le> idx")
    case False
    with None show ?thesis by (simp add: process_bar_def)
  next
    case True
    then have "1 \<le> idx" by simp
    from check_new_entry_outcome[OF this, of e df]
    consider (same) "check_new_entry e df idx = Inr e"
      | (opened) ty sz sl tp where
          "check_new_entry e df idx =
             Inr (e\<lparr>trade_count := trade_count e + 1,
                    current_position :=
                      Some \<lparr>ptype = ty, entry_price = Close (df ! idx),
                            entry_time = Date (df ! idx), psize = sz, stop_loss = sl,
                            take_profit = tp, trailing_stop = sl,
                            trade_id = trade_count e + 1\<rparr>\<rparr>)"
      by blast
    then show ?thesis
    proof cases
      case same
      then have "process_bar e df idx = Inr (e, equity e)"
        using None True by (simp add: process_bar_def)
      with None show ?thesis by blast
    next
      case opened
      let ?e' = "e\<lparr>trade_count := trade_count e + 1,
                    current_position :=
                      Some \<lparr>ptype = ty, entry_price = Close (df ! idx),
                            entry_time = Date (df ! idx), psize = sz, stop_loss = sl,
                            take_profit = tp, trailing_stop = sl,
                            trade_id = trade_count e + 1\<rparr>\<rparr>"
      from opened have "process_bar e df idx = Inr (?e', equity ?e')"
        using None True by (simp add: process_bar_def)
      with None True show ?thesis by blast
    qed
  qed
next
  case (Some p)
  from check_position_exit_outcome[OF Some, of df idx]
  obtain ts where
    "check_position_exit e df idx = Inr (e\<lparr>current_position := Some (p\<lparr>trailing_stop := ts\<rparr>)\<rparr>) \<or>
       (\<exists>price reason.
          check_position_exit e df idx =
            Inr (e\<lparr>current_position := None,
                   equity := equity e +
                     (if ptype p = Long then (price - entry_price p) * psize p
                      else (entry_price p - price) * psize p),
                   trades := trades e @
                     [\<lparr>t_id = trade_id p, t_type = ptype p, t_entry_time = entry_time p,
                       t_entry_price = entry_price p, t_exit_time = Date (df ! idx),
                       t_exit_price = price, t_size = psize p,
                       t_pnl = (if ptype p = Long then (price - entry_price p) * psize p
                                else (entry_price p - price) * psize p),
                       t_exit_reason = reason\<rparr>]\<rparr>))"
    by blast
  then consider (kept) "check_position_exit e df idx = Inr (e\<lparr>current_position := Some (p\<lparr>trailing_stop := ts\<rparr>)\<rparr>)"
    | (closed) price reason where
        "check_position_exit e df idx =
            Inr (e\<lparr>current_position := None,
                   equity := equity e +
                     (if ptype p = Long then (price - entry_price p) * psize p
                      else (entry_price p - price) * psize p),
                   trades := trades e @
                     [\<lparr>t_id = trade_id p, t_type = ptype p, t_entry_time = entry_time p,
                       t_entry_price = entry_price p, t_exit_time = Date (df ! idx),
                       t_exit_price = price, t_size = psize p,
                       t_pnl = (if ptype p = Long then (price - entry_price p) * psize p
                                else (entry_price p - price) * psize p),
                       t_exit_reason = reason\<rparr>]\<rparr>)"
    by blast
  then show ?thesis
  proof cases
    case kept
    let ?e' = "e\<lparr>current_position := Some (p\<lparr>trailing_stop := ts\<rparr>)\<rparr>"
    from kept have "process_bar e df idx = Inr (?e', equity ?e')"
      using Some by (simp add: process_bar_def)
    with Some show ?thesis by blast
  next
    case closed
    let ?e' = "e\<lparr>current_position := None,
                   equity := equity e +
                     (if ptype p = Long then (price - entry_price p) * psize p
                      else (entry_price p - price) * psize p),
                   trades := trades e @
                     [\<lparr>t_id = trade_id p, t_type = ptype p, t_entry_time = entry_time p,
                       t_entry_price = entry_price p, t_exit_time = Date (df ! idx),
                       t_exit_price = price, t_size = psize p,
                       t_pnl = (if ptype p = Long then (price - entry_price p) * psize p
                                else (entry_price p - price) * psize p),
                       t_exit_reason = reason\<rparr>]\<rparr>"
    from closed have "process_bar e df idx = Inr (?e', equity ?e')"
      using Some by (simp add: process_bar_def)
    with Some show ?thesis by blast
  qed
qed

lemma run_loop_append:
  "run_loop e df (xs @ ys) =
     (case run_loop e df xs of Inl err \<Rightarrow> Inl err | Inr e' \<Rightarrow> run_loop e' df ys)"
  by (induction xs arbitrary: e) (auto split: sum.splits)

lemma run_loop_total: "\<exists>e'. run_loop e df xs = Inr e'"
proof (induction xs arbitrary: e)
  case Nil
  show ?case by simp
next
  case (Cons idx xs)
  obtain e1 where "process_bar e df idx = Inr (e1, equity e1)"
    using process_bar_outcome by blast
  with Cons show ?case by simp
qed

lemma run_loop_invariant:
  assumes step: "\<And>e idx e' s. P e \<Longrightarrow> process_bar e df idx = Inr (e', s) \<Longrightarrow> P e'"
    and curve: "\<And>e c. P e \<Longrightarrow> P (e\<lparr>equity_curve := c\<rparr>)"
    and start: "P e"
    and run: "run_loop e df xs = Inr e'"
  shows "P e'"
  using start run
proof (induction xs arbitrary: e)
  case Nil
  then show ?case by simp
next
  case (Cons idx xs)
  then show ?case
    by (auto split: sum.splits dest: step intro: curve)
qed

lemma process_bar_cases [consumes 1, case_names idle opened kept closed]:
  assumes "process_bar e df idx = Inr (e', x)"
  obtains
    (idle) "current_position e = None" "e' = e" "x = equity e"
  | (opened) ty sz sl tp where "current_position e = None" "20 \<le> idx" "x = equity e"
      "e' = e\<lparr>trade_count := trade_count e + 1,
              current_position :=
                Some \<lparr>ptype = ty, entry_price = Close (df ! idx), entry_time = Date (df ! idx),
                      psize = sz, stop_loss = sl, take_profit = tp, trailing_stop = sl,
                      trade_id = trade_count e + 1\<rparr>\<rparr>"
  | (kept) p ts where "current_position e = Some p" "x = equity e"
      "e' = e\<lparr>current_position := Some (p\<lparr>trailing_stop := ts\<rparr>)\<rparr>"
  | (closed) p price reason where "current_position e = Some p" "x = equity e'"
      "e' = e\<lparr>current_position := None,
              equity := equity e +
                (if ptype p = Long then (price - entry_price p) * psize p
                 else (entry_price p - price) * psize p),
              trades := trades e @
                [\<lparr>t_id = trade_id p, t_type = ptype p, t_entry_time = entry_time p,
                  t_entry_price = entry_price p, t_exit_time = Date (df ! idx),
                  t_exit_price = price, t_size = psize p,
                  t_pnl = (if ptype p = Long then (price - entry_price p) * psize p
                           else (entry_price p - price) * psize p),
                  t_exit_reason = reason\<rparr>]\<rparr>"
proof -
  from process_bar_outcome[of e df idx] assms
  have x: "x = equity e'" and alt:
    "e' = e \<and> current_position e = None \<or>
      (\<exists>ty sz sl tp.
         current_position e = None \<and> 20 \<le> idx \<and>
         e' = e\<lparr>trade_count := trade_count e + 1,
                current_position :=
                  Some \<lparr>ptype = ty, entry_price = Close (df ! idx), entry_time = Date (df ! idx),
                        psize = sz, stop_loss = sl, take_profit = tp, trailing_stop = sl,
                        trade_id = trade_count e + 1\<rparr>\<rparr>) \<or>
      (\<exists>p ts. current_position e = Some p \<and>
         e' = e\<lparr>current_position := Some (p\<lparr>trailing_stop := ts\<rparr>)\<rparr>) \<or>
      (\<exists>p price reason. current_position e = Some p \<and>
         e' = e\<lparr>current_position := None,
                equity := equity e +
                  (if ptype p = Long then (price - entry_price p) * psize p
                   else (entry_price p - price) * psize p),
                trades := trades e @
                  [\<lparr>t_id = trade_id p, t_type = ptype p, t_entry_time = entry_time p,
                    t_entry_price = entry_price p, t_exit_time = Date (df ! idx),
                    t_exit_price = price, t_size = psize p,
                    t_pnl = (if ptype p = Long then (price - entry_price p) * psize p
                             else (entry_price p - price) * psize p),
                    t_exit_reason = reason\<rparr>]\<rparr>)"
    by auto
  from alt show thesis
  proof (elim disjE exE conjE)
    assume "e' = e" "current_position e = None"
    then show thesis using x by (intro idle) simp_all
  next
    fix ty sz sl tp
    assume "current_position e = None" "20 \<le> idx"
      and "e' = e\<lparr>trade_count := trade_count e + 1,
                current_position :=
                  Some \<lparr>ptype = ty, entry_price = Close (df ! idx), entry_time = Date (df ! idx),
                        psize = sz, stop_loss = sl, take_profit = tp, trailing_stop = sl,
                        trade_id = trade_count e + 1\<rparr>\<rparr>"
    then show thesis using x by (intro opened[of ty sz sl tp]) simp_all
  next
    fix p ts
    assume "current_position e = Some p"
      and "e' = e\<lparr>current_position := Some (p\<lparr>trailing_stop := ts\<rparr>)\<rparr>"
    then show thesis using x by (intro kept[of p ts]) simp_all
  next
    fix p price reason
    assume "current_position e = Some p"
      and "e' = e\<lparr>current_position := None,
                equity := equity e +
                  (if ptype p = Long then (price - entry_price p) * psize p
                   else (entry_price p - price) * psize p),
                trades := trades e @
                  [\<lparr>t_id = trade_id p, t_type = ptype p, t_entry_time = entry_time p,
                    t_entry_price = entry_price p, t_exit_time = Date (df ! idx),
                    t_exit_price = price, t_size = psize p,
                    t_pnl = (if ptype p = Long then (price - entry_price p) * psize p
                             else (entry_price p - price) * psize p),
                    t_exit_reason = reason\<rparr>]\<rparr>"
    then show thesis using x by (intro closed[of p price reason]) simp_all
  qed
qed

lemma ledger_step:
  assumes "process_bar e df idx = Inr (e', x)"
    and "equity e - initial_capital e = sum_list (map t_pnl (trades e))"
  shows "equity e' - initial_capital e' = sum_list (map t_pnl (trades e'))"
  using assms by (cases rule: process_bar_cases) auto

lemma count_step:
  assumes "process_bar e df idx = Inr (e', x)"
    and "trade_count e = length (trades e) + (case current_position e of None \<Rightarrow> 0 | Some _ \<Rightarrow> 1)"
  shows "trade_count e' = length (trades e') + (case current_position e' of None \<Rightarrow> 0 | Some _ \<Rightarrow> 1)"
  using assms by (cases rule: process_bar_cases) auto

lemma pnl_step:
  assumes "process_bar e df idx = Inr (e', x)"
    and "\<forall>t\<in>set (trades e). t_pnl t =
           (if t_type t = Long then (t_exit_price t - t_entry_price t) * t_size t
            else (t_entry_price t - t_exit_price t) * t_size t)"
  shows "\<forall>t\<in>set (trades e'). t_pnl t =
           (if t_type t = Long then (t_exit_price t - t_entry_price t) * t_size t
            else (t_entry_price t - t_exit_price t) * t_size t)"
  using assms by (cases rule: process_bar_cases) auto

lemma config_step:
  assumes "process_bar e df idx = Inr (e', x)"
  shows "entry_rules e' = entry_rules e \<and> exit_rules e' = exit_rules e \<and>
         initial_capital e' = initial_capital e \<and> position_size e' = position_size e"
  using assms by (cases rule: process_bar_cases) auto

lemma run_upto_ledger:
  assumes "run_upto e df k = Inr s"
  shows "equity s - initial_capital s = sum_list (map t_pnl (trades s))"
  using assms unfolding run_upto_def
  by (rule run_loop_invariant[rotated 3]) (auto simp: reset_def dest: ledger_step)

lemma run_upto_count:
  assumes "run_upto e df k = Inr s"
  shows "trade_count s = length (trades s) + (case current_position s of None \<Rightarrow> 0 | Some _ \<Rightarrow> 1)"
  using assms unfolding run_upto_def
  by (rule run_loop_invariant[rotated 3]) (auto simp: reset_def dest: count_step)

lemma run_upto_pnl:
  assumes "run_upto e df k = Inr s"
  shows "\<forall>t\<in>set (trades s). t_pnl t =
           (if t_type t = Long then (t_exit_price t - t_entry_price t) * t_size t
            else (t_entry_price t - t_exit_price t) * t_size t)"
  using assms unfolding run_upto_def
  by (rule run_loop_invariant[rotated 3]) (auto simp: reset_def dest: pnl_step)

lemma run_upto_config:
  assumes "run_upto e df k = Inr s"
  shows "entry_rules s = entry_rules e \<and> exit_rules s = exit_rules e \<and>
         initial_capital s = initial_capital e \<and> position_size s = position_size e"
  using assms unfolding run_upto_def
  by (rule run_loop_invariant[rotated 3]) (auto simp: reset_def dest: config_step)

lemma reset_config:
  assumes "entry_rules s = entry_rules e" "exit_rules s = exit_rules e"
    "initial_capital s = initial_capital e" "position_size s = position_size e"
  shows "reset s = reset (e :: BacktestEngine)"
  using assms by (simp add: reset_def)

section \<open>Warm-up and the sample run\<close>

lemma demo_engulfing_50: "is_engulfing demo_df 50 = (True, False)"
  by code_simp

lemma demo_confirmed_50: "is_momentum_confirmed demo_df 50 1.5"
  by code_simp

lemma demo_slope_50: "polyfit_slope (map Close (slice demo_df 0 51)) = 5 / 221"
  by code_simp

lemma demo_rsi_50: "\<not> rsi_overbought (get_momentum_signals demo_df 50)"
  by code_simp

lemma demo_size_50: "calculate_position_size default_VolatilityParams demo_df 50 0.1 = 11/80"
  by code_simp

lemma demo_stops_50: "get_dynamic_stops default_VolatilityParams demo_df 50 2 = Some (2, 4)"
  by code_simp

lemma demo_trail_51: "calculate_trailing_stop default_VolatilityParams demo_df 51 Long 110 = Inr 110"
  by code_simp

lemma demo_trail_52: "calculate_trailing_stop default_VolatilityParams demo_df 52 Long 110 = Inr 109"
  by code_simp

lemma demo_trail_53: "calculate_trailing_stop default_VolatilityParams demo_df 53 Long 110 = Inr 109"
  by code_simp

lemma ratio_lower:
  fixes y :: real
  assumes "0 < y" and "3 * y \<le> 1"
  shows "3 / 10 < (1 - y) / (1 + y)"
proof -
  have "3 / 10 * (1 + y) < 1 - y" using assms by argo
  moreover have "0 < 1 + y" using assms by simp
  ultimately show ?thesis by (simp only: pos_less_divide_eq)
qed

lemma tanh_lower: 
  fixes x :: real
  assumes "1 \<le> x"
  shows "3 / 10 < tanh x"
proof -
  have "3 \<le> exp (2 * x)"
    using exp_ge_add_one_self[of "2 * x"] assms by linarith
  then have "3 * exp (- 2 * x) \<le> exp (2 * x) * exp (- 2 * x)"
    by (intro mult_right_mono) simp_all
  also have "\<dots> = 1"
    by (simp flip: exp_add)
  finally have "3 * exp (- 2 * x) \<le> 1" .
  then have "3 / 10 < (1 - exp (- 2 * x)) / (1 + exp (- 2 * x))"
    by (intro ratio_lower) simp_all
  then show ?thesis by (simp only: tanh_real_altdef)
qed

lemma demo_trend_50: "0.3 < get_trend_strength demo_df 50 50"
proof -
  have "get_trend_strength demo_df 50 50 = tanh (500 / 221)"
    by (simp add: get_trend_strength_def Let_def demo_slope_50)
  moreover have "3 / 10 < tanh (500 / 221 :: real)"
    by (rule tanh_lower) simp
  ultimately show ?thesis by simp
qed

lemma check_entry_signals_warmup:
  "idx < 50 \<Longrightarrow> check_entry_signals df idx = (False, False)"
  by (simp add: check_entry_signals_def get_trend_strength_def Let_def split: prod.splits)

lemma demo_entry_50: "check_entry_signals demo_df 50 = (True, False)"
  using demo_trend_50 demo_confirmed_50 demo_rsi_50 by (simp add: check_entry_signals_def Let_def demo_engulfing_50 split: prod.splits)


lemma demo_no_signal_51: "\<not> check_exit_signals demo_df 51 Long"
proof -
  have a: "is_engulfing demo_df 51 = (False, False)" by code_simp
  have b: "\<not> is_shooting_star demo_df 51" by code_simp
  have c: "\<not> calculate_momentum_score demo_df 51 < - 0.3" by code_simp
  have d: "\<not> macd_bearish_cross (get_momentum_signals demo_df 51)" by code_simp
  have e: "\<not> rsi_overbought (get_momentum_signals demo_df 51)" by code_simp
  show ?thesis using b c d e by (simp add: check_exit_signals_def Let_def a)
qed

lemma demo_no_signal_52: "\<not> check_exit_signals demo_df 52 Long"
proof -
  have a: "is_engulfing demo_df 52 = (False, False)" by code_simp
  have b: "\<not> is_shooting_star demo_df 52" by code_simp
  have c: "\<not> calculate_momentum_score demo_df 52 < - 0.3" by code_simp
  have d: "\<not> macd_bearish_cross (get_momentum_signals demo_df 52)" by code_simp
  have e: "\<not> rsi_overbought (get_momentum_signals demo_df 52)" by code_simp
  show ?thesis using b c d e by (simp add: check_exit_signals_def Let_def a)
qed

lemma demo_bar_50: "demo_df ! 50 = (flat_bar 50)\<lparr>Open := 99.5, High := 110.5, Low := 99, Close := 110, Volume := 2000, RSI := 60\<rparr>"
  by (simp add: demo_df_def nth_append)
lemma demo_bar_51: "demo_df ! 51 = (flat_bar 51)\<lparr>Open := 111.5, High := 113.5, Low := 111, Close := 113, RSI := 60\<rparr>"
  by (simp add: demo_df_def nth_append)
lemma demo_bar_52: "demo_df ! 52 = (flat_bar 52)\<lparr>Open := 112.5, High := 113, Low := 111.5, Close := 112, RSI := 60\<rparr>"
  by (simp add: demo_df_def nth_append)
lemma demo_bar_53: "demo_df ! 53 = (flat_bar 53)\<lparr>Open := 112, High := 115, Low := 108, Close := 112, RSI := 60\<rparr>"
  by (simp add: demo_df_def nth_append)

lemma demo_process_50:
  assumes "current_position e = None" "entry_rules e = default_VolatilityParams"
    "exit_rules e = default_VolatilityParams" "position_size e = 0.1"
  shows "process_bar e demo_df 50 =
     Inr (e\<lparr>trade_count := trade_count e + 1,
            current_position := Some (demo_position\<lparr>trade_id := trade_count e + 1\<rparr>)\<rparr>, equity e)"
proof -
  have sz: "calculate_position_size (entry_rules e) demo_df 50 (position_size e) = 11 / 80"
    using demo_size_50 by (simp only: assms)
  have st: "get_dynamic_stops (exit_rules e) demo_df 50 2 = Some (2, 4)"
    using demo_stops_50 by (simp only: assms)
  show ?thesis
    using assms(1)
    by (simp add: process_bar_def check_new_entry_def demo_entry_50 open_position_def Let_def
          demo_position_def demo_bar_50 flat_bar_def sz st)
qed

lemma demo_process_51:
  assumes "current_position e = Some (demo_position\<lparr>trailing_stop := t\<rparr>)"
    "exit_rules e = default_VolatilityParams"
  shows "process_bar e demo_df 51 =
     Inr (e\<lparr>current_position := Some (demo_position\<lparr>trailing_stop := 110\<rparr>)\<rparr>, equity e)"
  using assms demo_trail_51 demo_no_signal_51
  by (simp add: process_bar_def check_position_exit_def Let_def demo_position_def demo_bar_51 flat_bar_def)

lemma demo_process_52:
  assumes "current_position e = Some (demo_position\<lparr>trailing_stop := t\<rparr>)"
    "exit_rules e = default_VolatilityParams"
  shows "process_bar e demo_df 52 =
     Inr (e\<lparr>current_position := Some (demo_position\<lparr>trailing_stop := 109\<rparr>)\<rparr>, equity e)"
  using assms demo_trail_52 demo_no_signal_52
  by (simp add: process_bar_def check_position_exit_def Let_def demo_position_def demo_bar_52 flat_bar_def)

lemma demo_process_53:
  assumes "current_position e = Some (demo_position\<lparr>trailing_stop := t\<rparr>)"
    "exit_rules e = default_VolatilityParams"
  shows "process_bar e demo_df 53 =
     Inr (e\<lparr>current_position := None, equity := equity e - 11 / 80,
            trades := trades e @ [demo_trade]\<rparr>, equity e - 11 / 80)"
  using assms demo_trail_53
  by (simp add: process_bar_def check_position_exit_def close_position_def Let_def
        demo_position_def demo_trade_def demo_bar_53 flat_bar_def)

lemma process_bar_idle:
  "current_position e = None \<Longrightarrow> idx < 50 \<Longrightarrow> process_bar e df idx = Inr (e, equity e)"
  by (simp add: process_bar_def check_new_entry_def check_entry_signals_warmup)

lemma run_loop_idle:
  "current_position e = None \<Longrightarrow> \<forall>i\<in>set xs. i < 50 \<Longrightarrow>
   run_loop e df xs = Inr (e\<lparr>equity_curve := equity_curve e @ replicate (length xs) (equity e)\<rparr>)"
proof (induction xs arbitrary: e)
  case Nil
  then show ?case by simp
next
  case (Cons i xs)
  then show ?case
    by (simp add: process_bar_idle replicate_append_same)
qed

lemma run_upto_idle:
  "k \<le> 50 \<Longrightarrow>
   run_upto e df k = Inr ((reset e)\<lparr>equity_curve := replicate k (initial_capital e)\<rparr>)"
  using run_loop_idle[of "reset e" "[0..<k]" df] by (simp add: run_upto_def reset_def)

lemma run_upto_Suc:
  "run_upto e df (Suc k) =
     (case run_upto e df k of
        Inl err \<Rightarrow> Inl err
      | Inr s \<Rightarrow>
          (case process_bar s df k of
             Inl err \<Rightarrow> Inl err
           | Inr (s', x) \<Rightarrow> Inr (s'\<lparr>equity_curve := equity_curve s' @ [x]\<rparr>)))"
  by (simp add: run_upto_def run_loop_append split: sum.splits prod.splits)

lemma demo_upto_50: "run_upto demo_engine demo_df 50 = Inr (demo_engine\<lparr>equity_curve := replicate 50 100000\<rparr>)"
  by (simp add: run_upto_idle) (simp add: demo_engine_def reset_def)

lemma demo_upto_51: "run_upto demo_engine demo_df 51 = Inr (demo_state (Some demo_position) 51)"
proof -
  have "run_upto demo_engine demo_df (Suc 50) = Inr (demo_state (Some demo_position) (Suc 50))"
    unfolding run_upto_Suc demo_upto_50
    by (simp add: demo_process_50 demo_engine_def demo_state_def demo_position_def replicate_append_same del: Suc_numeral)
  then show ?thesis by (simp del: replicate_Suc)
qed

lemma demo_upto_52: "run_upto demo_engine demo_df 52 =
   Inr (demo_state (Some (demo_position\<lparr>trailing_stop := 110\<rparr>)) 52)"
proof -
  have "run_upto demo_engine demo_df (Suc 51) =
      Inr (demo_state (Some (demo_position\<lparr>trailing_stop := 110\<rparr>)) (Suc 51))"
    unfolding run_upto_Suc demo_upto_51
    by (simp add: demo_process_51[where t = 108] demo_engine_def demo_state_def demo_position_def
          replicate_append_same del: Suc_numeral)
  then show ?thesis by (simp del: replicate_Suc)
qed

lemma demo_upto_53: "run_upto demo_engine demo_df 53 =
   Inr (demo_state (Some (demo_position\<lparr>trailing_stop := 109\<rparr>)) 53)"
proof -
  have "run_upto demo_engine demo_df (Suc 52) =
      Inr (demo_state (Some (demo_position\<lparr>trailing_stop := 109\<rparr>)) (Suc 52))"
    unfolding run_upto_Suc demo_upto_52
    by (simp add: demo_process_52[where t = 110] demo_engine_def demo_state_def demo_position_def
          replicate_append_same del: Suc_numeral)
  then show ?thesis by (simp del: replicate_Suc)
qed

lemma demo_upto_54: "run_upto demo_engine demo_df 54 =
   Inr (demo_engine\<lparr>trade_count := 1, equity := 100000 - 11 / 80, trades := [demo_trade],
                   equity_curve := replicate 53 100000 @ [100000 - 11 / 80]\<rparr>)"
proof -
  have "run_upto demo_engine demo_df (Suc 53) =
   Inr (demo_engine\<lparr>trade_count := 1, equity := 100000 - 11 / 80, trades := [demo_trade],
                   equity_curve := replicate 53 100000 @ [100000 - 11 / 80]\<rparr>)"
    unfolding run_upto_Suc demo_upto_53
    by (simp add: demo_process_53[where t = 109] demo_engine_def demo_state_def demo_position_def)
  then show ?thesis by (simp del: replicate_Suc)
qed

lemma run_Inr_iff:
  "run e df = Inr r \<longleftrightarrow> (\<exists>s. run_state e df = Inr s \<and> generate_results s = Inr r)"
  by (simp add: run_def split: sum.splits)

lemma generate_results_fields:
  assumes "generate_results s = Inr r"
  shows "r_final_equity r = equity s" "r_initial_capital r = initial_capital s"
    "r_trades r = trades s" "r_equity_curve r = equity_curve s" "trades s \<noteq> []"
  using assms by (auto simp: generate_results_def split: if_splits)

lemma demo_length: "length demo_df = 54"
  by (simp add: demo_df_def)

lemma demo_run:
  "run demo_engine demo_df =
     Inr \<lparr>r_initial_capital = 100000, r_final_equity = 100000 - 11 / 80,
          r_total_return = (100000 - 11 / 80 - 100000) / 100000,
          r_trades = [demo_trade],
          r_equity_curve = replicate 53 100000 @ [100000 - 11 / 80],
          r_trade_count = 1, r_win_rate = 0, r_average_trade = - (11 / 80),
          r_max_drawdown = calculate_max_drawdown (replicate 53 100000 @ [100000 - 11 / 80])\<rparr>"
  unfolding run_def run_state_def demo_length demo_upto_54
  by (simp add: generate_results_def demo_engine_def demo_trade_def mean_def)

lemma run_upto_warmup:
  assumes "run_upto e df k = Inr s" and "k \<le> 50"
  shows "trades s = [] \<and> current_position s = None \<and> trade_count s = 0"
  using assms by (simp add: run_upto_idle reset_def) auto

lemma momentum_factor_range:
  "0.5 \<le> 0.5 + \<bar>calculate_momentum_score df idx\<bar> * 0.5 \<and>
   0.5 + \<bar>calculate_momentum_score df idx\<bar> * 0.5 \<le> (1::real)"
proof -
  have "\<bar>calculate_momentum_score df idx\<bar> \<le> 1"
    by (simp add: calculate_momentum_score_def Let_def abs_le_iff)
  then show ?thesis by simp
qed

lemma process_bar_entry:
  assumes "process_bar e df idx = Inr (e', x)"
    and "current_position e = None"
    and "current_position e' = Some p"
  shows "20 \<le> idx"
    and "psize p = calculate_position_size (entry_rules e) df idx (position_size e)"
    and "trailing_stop p = stop_loss p"
    and "entry_time p = Date (df ! idx)"
    and "entry_price p = Close (df ! idx)"
    and "trades e' = trades e"
    and "equity e' = equity e"
proof -
  have idx: "20 \<le> idx"
    using assms by (auto simp: process_bar_def split: if_splits)
  then have "check_new_entry e df idx = Inr e'"
    using assms(1,2) by (auto simp: process_bar_def split: sum.splits)
  then have "psize p = calculate_position_size (entry_rules e) df idx (position_size e) \<and>
      trailing_stop p = stop_loss p \<and> entry_time p = Date (df ! idx) \<and>
      entry_price p = Close (df ! idx) \<and> trades e' = trades e \<and> equity e' = equity e"
    using assms(2,3)
    by (auto simp: check_new_entry_def open_position_def Let_def
             split: prod.splits if_splits option.splits)
  with idx show "20 \<le> idx"
    and "psize p = calculate_position_size (entry_rules e) df idx (position_size e)"
    and "trailing_stop p = stop_loss p"
    and "entry_time p = Date (df ! idx)"
    and "entry_price p = Close (df ! idx)"
    and "trades e' = trades e"
    and "equity e' = equity e"
    by simp_all
qed

lemma run_upto_total: "\<exists>s. run_upto e df k = Inr s"
  unfolding run_upto_def by (rule run_loop_total)

lemma reset_reset_state:
  "reset (e\<lparr>equity := a, current_position := b, trades := c, equity_curve := d,
            trade_count := n\<rparr>) = reset e"
  by (simp add: reset_def)

lemma double_round_size: "double_round (11 / 80) = 2476979795053773 / 2 ^ 54"
  by code_simp

lemma double_round_pnl:
  "double_round (double_round (109 - 110) * (2476979795053773 / 2 ^ 54)) =
     - (2476979795053773 / 2 ^ 54)"
  by code_simp

lemma double_round_equity:
  "double_round (100000 + - (2476979795053773 / 2 ^ 54)) = 6871938224671949 / 2 ^ 36"
  by code_simp

lemma double_round_difference:
  "double_round (6871938224671949 / 2 ^ 36 - 100000) = - (9448928051 / 2 ^ 36)"
  by code_simp

lemma demo_process_50_sized:
  assumes "current_position e = None" "exit_rules e = default_VolatilityParams"
    "calculate_position_size (entry_rules e) demo_df 50 (position_size e) = sz"
  shows "process_bar e demo_df 50 =
     Inr (e\<lparr>trade_count := trade_count e + 1,
            current_position :=
              Some (demo_position\<lparr>trade_id := trade_count e + 1, psize := sz\<rparr>)\<rparr>, equity e)"
proof -
  have st: "get_dynamic_stops (exit_rules e) demo_df 50 2 = Some (2, 4)"
    using demo_stops_50 by (simp only: assms)
  show ?thesis
    using assms(1)
    by (simp add: process_bar_def check_new_entry_def demo_entry_50 open_position_def Let_def
          demo_position_def demo_bar_50 flat_bar_def assms(3) st)
qed

lemma demo_size_50_lookback60:
  "calculate_position_size (default_VolatilityParams\<lparr>volatility_lookback := 60\<rparr>) demo_df 50 0.1 =
     11 / 200"
  by code_simp

lemma demo_upto_51_lookback60:
  "run_upto demo_engine_lookback60 demo_df 51 =
     Inr (demo_engine_lookback60\<lparr>trade_count := 1,
            current_position := Some (demo_position\<lparr>psize := 11 / 200\<rparr>),
            equity_curve := replicate 51 100000\<rparr>)"
proof -
  let ?s = "demo_engine_lookback60\<lparr>equity_curve := replicate 50 100000\<rparr>"
  have u: "run_upto demo_engine_lookback60 demo_df 50 = Inr ?s"
    by (simp add: run_upto_idle) (simp add: demo_engine_lookback60_def demo_engine_def reset_def)
  have sz: "calculate_position_size (entry_rules ?s) demo_df 50 (position_size ?s) = 11 / 200"
    using demo_size_50_lookback60 by (simp add: demo_engine_lookback60_def demo_engine_def)
  have "process_bar ?s demo_df 50 =
     Inr (?s\<lparr>trade_count := trade_count ?s + 1,
            current_position :=
              Some (demo_position\<lparr>trade_id := trade_count ?s + 1, psize := 11 / 200\<rparr>)\<rparr>,
          equity ?s)"
    by (rule demo_process_50_sized[OF _ _ sz])
       (simp_all add: demo_engine_lookback60_def demo_engine_def)
  then have pb: "process_bar ?s demo_df 50 =
     Inr (demo_engine_lookback60\<lparr>trade_count := 1,
            current_position := Some (demo_position\<lparr>psize := 11 / 200\<rparr>),
            equity_curve := replicate 50 100000\<rparr>, 100000)"
    by (simp add: demo_engine_lookback60_def demo_engine_def demo_position_def)
  have "run_upto demo_engine_lookback60 demo_df (Suc 50) =
     Inr (demo_engine_lookback60\<lparr>trade_count := 1,
            current_position := Some (demo_position\<lparr>psize := 11 / 200\<rparr>),
            equity_curve := replicate (Suc 50) 100000\<rparr>)"
    unfolding run_upto_Suc u by (simp add: pb replicate_append_same del: Suc_numeral)
  then show ?thesis by (simp del: replicate_Suc)
qed

lemma high_engulfing_50: "is_engulfing demo_df_high 50 = (True, False)"
  by code_simp

lemma high_confirmed_50: "is_momentum_confirmed demo_df_high 50 1.5"
  by code_simp

lemma high_slope_50: "polyfit_slope (map Close (slice demo_df_high 0 51)) = 5 / 221"
  by code_simp

lemma high_rsi_50: "\<not> rsi_overbought (get_momentum_signals demo_df_high 50)"
  by code_simp

lemma high_size_50: "calculate_position_size default_VolatilityParams demo_df_high 50 0.1 = 11 / 80"
  by code_simp

lemma high_stops_50: "get_dynamic_stops default_VolatilityParams demo_df_high 50 2 = Some (3 / 2, 3)"
  by code_simp

lemma high_bar_50: "Close (demo_df_high ! 50) = 110 \<and> Date (demo_df_high ! 50) = 50"
  by code_simp

lemma high_entry_50: "check_entry_signals demo_df_high 50 = (True, False)"
proof -
  have "get_trend_strength demo_df_high 50 50 = tanh (500 / 221)"
    by (simp add: get_trend_strength_def Let_def high_slope_50)
  moreover have "3 / 10 < tanh (500 / 221 :: real)"
    by (rule tanh_lower) simp
  ultimately have "0.3 < get_trend_strength demo_df_high 50 50" by simp
  then show ?thesis
    using high_confirmed_50 high_rsi_50
    by (simp add: check_entry_signals_def Let_def high_engulfing_50 split: prod.splits)
qed

lemma high_upto_51:
  "run_upto demo_engine demo_df_high 51 =
     Inr (demo_engine\<lparr>trade_count := 1,
            current_position :=
              Some (demo_position\<lparr>stop_loss := 217 / 2, take_profit := 113,
                                    trailing_stop := 217 / 2\<rparr>),
            equity_curve := replicate 51 100000\<rparr>)"
proof -
  let ?s = "demo_engine\<lparr>equity_curve := replicate 50 100000\<rparr>"
  have u: "run_upto demo_engine demo_df_high 50 = Inr ?s"
    by (simp add: run_upto_idle) (simp add: demo_engine_def reset_def)
  have pb: "process_bar ?s demo_df_high 50 =
      Inr (demo_engine\<lparr>trade_count := 1,
            current_position :=
              Some (demo_position\<lparr>stop_loss := 217 / 2, take_profit := 113,
                                    trailing_stop := 217 / 2\<rparr>),
            equity_curve := replicate 50 100000\<rparr>, 100000)"
    using high_bar_50
    by (simp add: process_bar_def check_new_entry_def high_entry_50 open_position_def Let_def
          demo_engine_def demo_position_def high_size_50 high_stops_50)
  have "run_upto demo_engine demo_df_high (Suc 50) =
     Inr (demo_engine\<lparr>trade_count := 1,
            current_position :=
              Some (demo_position\<lparr>stop_loss := 217 / 2, take_profit := 113,
                                    trailing_stop := 217 / 2\<rparr>),
            equity_curve := replicate (Suc 50) 100000\<rparr>)"
    unfolding run_upto_Suc u by (simp add: pb replicate_append_same del: Suc_numeral)
  then show ?thesis by (simp del: replicate_Suc)
qed

section \<open>Claims\<close>

text \<open>
  C1. When a position is open and the bar fires at least one exit condition, the trade is
  closed with the reason chosen in the order stop, target, signal, and the recorded exit
  price is the trailing stop if the stop was hit, else the take-profit if the target was
  hit, else the bar's close. The stop is tested against the trailing stop as recomputed on
  that bar. In particular a long whose trailing stop on the bar is 95 and whose take-profit
  is 110 closes, on a bar with low 94 and high 112, with reason Stop at price 95.
\<close>

theorem exit_priority_stop_target_signal:
  assumes "current_position e = Some p"
    and "calculate_trailing_stop (exit_rules e) df idx (ptype p) (entry_price p) = Inr ts"
    and "hit_stop = (ptype p = Long \<and> Low (df ! idx) \<le> ts \<or>
                     ptype p = Short \<and> ts \<le> High (df ! idx))"
    and "hit_target = (ptype p = Long \<and> take_profit p \<le> High (df ! idx) \<or>
                       ptype p = Short \<and> Low (df ! idx) \<le> take_profit p)"
    and "hit_stop \<or> hit_target \<or> check_exit_signals df idx (ptype p)"
  shows "\<exists>e' t. check_position_exit e df idx = Inr e' \<and> current_position e' = None \<and>
           trades e' = trades e @ [t] \<and>
           t_exit_reason t =
             (if hit_stop then ''Stop'' else if hit_target then ''Target'' else ''Signal'') \<and>
           t_exit_price t =
             (if hit_stop then ts else if hit_target then take_profit p else Close (df ! idx)) \<and>
           (ptype p = Long \<and> ts = 95 \<and> take_profit p = 110 \<and> Low (df ! idx) = 94 \<and>
            High (df ! idx) = 112 \<longrightarrow> t_exit_reason t = ''Stop'' \<and> t_exit_price t = 95)"
proof -
  let ?e1 = "e\<lparr>current_position := Some (p\<lparr>trailing_stop := ts\<rparr>)\<rparr>"
  let ?price = "if hit_stop then ts else if hit_target then take_profit p else Close (df ! idx)"
  let ?reason = "if hit_stop then ''Stop'' else if hit_target then ''Target'' else ''Signal''"
  have cp: "current_position ?e1 = Some (p\<lparr>trailing_stop := ts\<rparr>)" by simp
  have "check_position_exit e df idx = close_position ?e1 ?price (Date (df ! idx)) ?reason"
    using assms(5) unfolding check_position_exit_step[OF assms(1,2)] Let_def
    by (simp add: assms(3,4))
  then show ?thesis
    unfolding close_position_Some[OF cp]
    by (auto simp: assms(3))
qed

theorem exit_priority_witness:
  "current_position fixture_engine = Some fixture_position \<and>
   calculate_trailing_stop (exit_rules fixture_engine) fixture_df 1 Long 90 = Inr 95 \<and>
   Low (fixture_df ! 1) = 94 \<and> High (fixture_df ! 1) = 112 \<and>
   take_profit fixture_position = 110 \<and>
   (\<exists>e' t. check_position_exit fixture_engine fixture_df 1 = Inr e' \<and>
      current_position e' = None \<and> trades e' = [t] \<and>
      t_exit_reason t = ''Stop'' \<and> t_exit_price t = 95)"
proof -
  have ts: "calculate_trailing_stop (exit_rules fixture_engine) fixture_df 1
              (ptype fixture_position) (entry_price fixture_position) = Inr 95"
    by (simp add: calculate_trailing_stop_def get_dynamic_stops_def fixture_engine_def
          fixture_position_def fixture_df_def fixture_bar_def default_VolatilityParams_def
          regime_multipliers_def Let_def)
  have cp: "current_position fixture_engine = Some fixture_position"
    by (simp add: fixture_engine_def)
  have bar: "Low (fixture_df ! 1) = 94" "High (fixture_df ! 1) = 112"
    by (simp_all add: fixture_df_def fixture_bar_def)
  have pos: "ptype fixture_position = Long" "take_profit fixture_position = 110"
    "entry_price fixture_position = 90"
    by (simp_all add: fixture_position_def)
  have tr: "trades fixture_engine = []" by (simp add: fixture_engine_def)
  have "\<exists>e' t. check_position_exit fixture_engine fixture_df 1 = Inr e' \<and>
           current_position e' = None \<and> trades e' = trades fixture_engine @ [t] \<and>
           t_exit_reason t = (if True then ''Stop'' else if True then ''Target'' else ''Signal'') \<and>
           t_exit_price t =
             (if True then 95 else if True then take_profit fixture_position
              else Close (fixture_df ! 1)) \<and>
           (ptype fixture_position = Long \<and> (95::real) = 95 \<and>
            take_profit fixture_position = 110 \<and> Low (fixture_df ! 1) = 94 \<and>
            High (fixture_df ! 1) = 112 \<longrightarrow> t_exit_reason t = ''Stop'' \<and> t_exit_price t = 95)"
    by (rule exit_priority_stop_target_signal[OF cp ts]) (use bar pos in simp_all)
  then obtain e' t where "check_position_exit fixture_engine fixture_df 1 = Inr e'"
    "current_position e' = None" "trades e' = [t]" "t_exit_reason t = ''Stop''"
    "t_exit_price t = 95"
    by (auto simp: tr)
  then have "\<exists>e' t. check_position_exit fixture_engine fixture_df 1 = Inr e' \<and>
      current_position e' = None \<and> trades e' = [t] \<and>
      t_exit_reason t = ''Stop'' \<and> t_exit_price t = 95"
    by blast
  with cp ts bar pos show ?thesis by simp
qed

text \<open>
  C2, as stated, fails: the trailing stop is recomputed from the current bar alone and is
  not compared with its previous value. In the sample run the long opened at bar 50 has its
  stop at 110 after bar 51 and at 109 after bar 52.
\<close>

theorem trailing_stop_can_loosen:
  "map_option ptype (position_after demo_engine demo_df 52) = Some Long \<and>
   map_option trade_id (position_after demo_engine demo_df 52) = Some 1 \<and>
   map_option trade_id (position_after demo_engine demo_df 53) = Some 1 \<and>
   map_option trailing_stop (position_after demo_engine demo_df 52) = Some 110 \<and>
   map_option trailing_stop (position_after demo_engine demo_df 53) = Some 109"
  by (simp add: position_after_def demo_upto_52 demo_upto_53 demo_state_def demo_position_def)

text \<open>
  C2, amended. On a bar (index at least 1) that leaves the position open, every field of
  the position but the trailing stop is unchanged, in particular the take-profit; the new
  trailing stop is the close minus 1.5 stop distances, raised to 0.99 of the entry price,
  for a long, and the close plus 1.5 stop distances, lowered to 1.01 of the entry price,
  for a short. So it never lies below 0.99 of the entry price for a long nor above 1.01 of
  it for a short; nothing relates it to its previous value.
\<close>

theorem take_profit_fixed_trailing_stop_clamped:
  assumes "process_bar e df idx = Inr (e', x)"
    and "current_position e = Some p"
    and "current_position e' = Some p'"
    and "1 \<le> idx"
  shows "take_profit p' = take_profit p \<and> entry_price p' = entry_price p \<and>
         ptype p' = ptype p \<and> trade_id p' = trade_id p \<and> stop_loss p' = stop_loss p \<and>
         psize p' = psize p \<and>
         (\<exists>sd. get_dynamic_stops (exit_rules e) df idx 2 = Some (sd, 2 * sd) \<and>
            trailing_stop p' =
              (if ptype p = Long then max (Close (df ! idx) - sd * 1.5) (entry_price p * 0.99)
               else min (Close (df ! idx) + sd * 1.5) (entry_price p * 1.01))) \<and>
         (ptype p = Long \<longrightarrow> entry_price p * 0.99 \<le> trailing_stop p') \<and>
         (ptype p = Short \<longrightarrow> trailing_stop p' \<le> entry_price p * 1.01)"
proof -
  obtain ts where ts:
    "calculate_trailing_stop (exit_rules e) df idx (ptype p) (entry_price p) = Inr ts"
    using calculate_trailing_stop_Inr by blast
  have pb: "process_bar e df idx =
      (case check_position_exit e df idx of Inl err \<Rightarrow> Inl err | Inr e1 \<Rightarrow> Inr (e1, equity e1))"
    using assms(2) by (simp add: process_bar_def)
  have e': "e' = e\<lparr>current_position := Some (p\<lparr>trailing_stop := ts\<rparr>)\<rparr>"
    using assms(1,3) unfolding pb check_position_exit_step[OF assms(2) ts] Let_def
    by (auto simp: close_position_def Let_def split: if_splits)
  then have p': "p' = p\<lparr>trailing_stop := ts\<rparr>" using assms(3) by simp
  let ?sd = "max (ATR (df ! idx)) (minimum_atr_value (exit_rules e)) *
               (2 * regime_multipliers (Volatility_Regime (df ! idx)))"
  have st: "get_dynamic_stops (exit_rules e) df idx 2 = Some (?sd, 2 * ?sd)"
    using assms(4) by (simp add: get_dynamic_stops_def Let_def)
  have tsv: "ts = (if ptype p = Long then max (Close (df ! idx) - ?sd * 1.5) (entry_price p * 0.99)
               else min (Close (df ! idx) + ?sd * 1.5) (entry_price p * 1.01))"
    using ts assms(4) by (simp add: calculate_trailing_stop_def st Let_def split: if_splits)
  have "\<exists>sd. get_dynamic_stops (exit_rules e) df idx 2 = Some (sd, 2 * sd) \<and>
            trailing_stop p' =
              (if ptype p = Long then max (Close (df ! idx) - sd * 1.5) (entry_price p * 0.99)
               else min (Close (df ! idx) + sd * 1.5) (entry_price p * 1.01))"
    using st tsv p' by (intro exI[of _ ?sd]) simp
  moreover have "ptype p = Long \<longrightarrow> entry_price p * 0.99 \<le> trailing_stop p'"
  proof
    assume "ptype p = Long"
    with tsv have "ts = max (Close (df ! idx) - ?sd * 1.5) (entry_price p * 0.99)"
      by (simp only: refl if_True)
    moreover have "entry_price p * 0.99 \<le> max (Close (df ! idx) - ?sd * 1.5) (entry_price p * 0.99)"
      by (rule max.cobounded2)
    ultimately have "entry_price p * 0.99 \<le> ts" by (simp only:)
    moreover have "trailing_stop p' = ts" by (simp add: p')
    ultimately show "entry_price p * 0.99 \<le> trailing_stop p'" by (simp only:)
  qed
  moreover have "ptype p = Short \<longrightarrow> trailing_stop p' \<le> entry_price p * 1.01"
  proof
    assume "ptype p = Short"
    with tsv have "ts = min (Close (df ! idx) + ?sd * 1.5) (entry_price p * 1.01)"
      by (simp only: position_type.distinct if_False)
    moreover have "min (Close (df ! idx) + ?sd * 1.5) (entry_price p * 1.01) \<le> entry_price p * 1.01"
      by (rule min.cobounded2)
    ultimately have "ts \<le> entry_price p * 1.01" by (simp only:)
    moreover have "trailing_stop p' = ts" by (simp add: p')
    ultimately show "trailing_stop p' \<le> entry_price p * 1.01" by (simp only:)
  qed
  ultimately show ?thesis using p' by simp
qed

theorem take_profit_fixed_witness:
  "process_bar (demo_state (Some demo_position) 51) demo_df 51 =
     Inr ((demo_state (Some (demo_position\<lparr>trailing_stop := 110\<rparr>)) 51), 100000) \<and>
   current_position (demo_state (Some demo_position) 51) = Some demo_position \<and>
   (1::nat) \<le> 51 \<and>
   take_profit (demo_position\<lparr>trailing_stop := 110\<rparr>) = take_profit demo_position \<and>
   ptype demo_position = Long \<and>
   entry_price demo_position * 0.99 \<le> trailing_stop (demo_position\<lparr>trailing_stop := 110\<rparr>)"
proof -
  have pb: "process_bar (demo_state (Some demo_position) 51) demo_df 51 =
     Inr ((demo_state (Some (demo_position\<lparr>trailing_stop := 110\<rparr>)) 51), 100000)"
    by (simp add: demo_process_51[where t = 108] demo_state_def demo_engine_def
          demo_position_def)
  have cp: "current_position (demo_state (Some demo_position) 51) = Some demo_position"
    by (simp add: demo_state_def)
  have cp': "current_position (demo_state (Some (demo_position\<lparr>trailing_stop := 110\<rparr>)) 51) =
      Some (demo_position\<lparr>trailing_stop := 110\<rparr>)"
    by (simp add: demo_state_def)
  have "(1::nat) \<le> 51" by simp
  from take_profit_fixed_trailing_stop_clamped[OF pb cp cp' this] pb cp
  show ?thesis by (simp add: demo_position_def)
qed

text \<open>
  C3. A run that ends with an empty ledger does not return a summary: \<^verbatim>\<open>_generate_results\<close>
  divides by the number of trades and raises \<^verbatim>\<open>ZeroDivisionError\<close>. The sibling
  \<^verbatim>\<open>PerformanceMetrics.calculate_metrics\<close> guards the same division.
\<close>

theorem zero_trade_run_raises:
  assumes "run_state e df = Inr s" and "trades s = []"
  shows "run e df = Inl ZeroDivisionError"
  using assms by (simp add: run_def generate_results_def)

theorem zero_trade_run_witness:
  "run_state demo_engine (map flat_bar [0..<19]) =
     Inr (demo_engine\<lparr>equity_curve := replicate 19 100000\<rparr>) \<and>
   trades (demo_engine\<lparr>equity_curve := replicate 19 100000\<rparr>) = [] \<and>
   run demo_engine (map flat_bar [0..<19]) = Inl ZeroDivisionError"
proof -
  have rs: "run_state demo_engine (map flat_bar [0..<19]) =
      Inr (demo_engine\<lparr>equity_curve := replicate 19 100000\<rparr>)"
    by (simp add: run_state_def run_upto_idle) (simp add: demo_engine_def reset_def)
  have tr: "trades (demo_engine\<lparr>equity_curve := replicate 19 100000\<rparr>) = []"
    by (simp add: demo_engine_def)
  from zero_trade_run_raises[OF rs tr] rs tr show ?thesis by simp
qed

text \<open>
  C4, as stated, fails in the program's arithmetic: the equity is a double and every
  \<^verbatim>\<open>self.equity += pnl\<close> rounds. Closing the long of the sample run (entry 110, exit 109,
  size the double nearest 0.1375) from an equity of 100000 leaves an equity whose
  difference from the initial capital is -9448928051 / 2^36, not the trade's pnl.
\<close>

theorem double_equity_drifts_from_pnl:
  "double_gap
     (close_position_double
        (demo_state (Some (demo_position\<lparr>trailing_stop := 109,
                                          psize := double_round (11 / 80)\<rparr>)) 53)
        109 53 ''Stop'') =
     Some (- (9448928051 / 2 ^ 36), [- (2476979795053773 / 2 ^ 54)]) \<and>
   - (9448928051 / 2 ^ 36) \<noteq> sum_list [- (2476979795053773 / 2 ^ 54 :: real)]"
proof -
  have "close_position_double
        (demo_state (Some (demo_position\<lparr>trailing_stop := 109,
                                          psize := 2476979795053773 / 2 ^ 54\<rparr>)) 53)
        109 53 ''Stop'' =
      Inr (demo_engine\<lparr>trade_count := 1, equity := 6871938224671949 / 2 ^ 36,
             trades := [demo_trade\<lparr>t_size := 2476979795053773 / 2 ^ 54,
                                   t_pnl := - (2476979795053773 / 2 ^ 54)\<rparr>],
             equity_curve := replicate 53 100000\<rparr>)"
    unfolding close_position_double_def demo_state_def demo_position_def demo_engine_def
      demo_trade_def
    using double_round_pnl double_round_equity by (simp add: Let_def)
  then show ?thesis
    using double_round_difference
    by (simp add: double_round_size double_gap_def demo_engine_def demo_trade_def)
qed

text \<open>
  C4, amended. In exact arithmetic, that is with the rounding of each float operation set
  aside, the equity minus the initial capital is, after any number of bars of a run, the
  sum of the pnl of the trades in the ledger, each pnl being (exit - entry) * size for a
  long and (entry - exit) * size for a short; so it is for the summary a run returns. A bar
  changes the equity only by appending one trade, whose pnl it adds.
\<close>

theorem final_equity_is_capital_plus_pnl:
  assumes "run_upto e df k = Inr s"
  shows "equity s - initial_capital e = sum_list (map t_pnl (trades s)) \<and>
     (\<forall>t\<in>set (trades s).
        t_pnl t = (if t_type t = Long then (t_exit_price t - t_entry_price t) * t_size t
                   else (t_entry_price t - t_exit_price t) * t_size t)) \<and>
     (\<forall>r. run e df = Inr r \<longrightarrow>
        r_final_equity r - r_initial_capital r = sum_list (map t_pnl (r_trades r))) \<and>
     (\<forall>s' x. process_bar s df k = Inr (s', x) \<longrightarrow>
        trades s' = trades s \<and> equity s' = equity s \<or>
        (\<exists>t. trades s' = trades s @ [t] \<and> equity s' = equity s + t_pnl t))"
proof -
  have a: "equity s - initial_capital e = sum_list (map t_pnl (trades s))"
    using run_upto_ledger[OF assms] run_upto_config[OF assms] by simp
  have b: "\<forall>r. run e df = Inr r \<longrightarrow>
        r_final_equity r - r_initial_capital r = sum_list (map t_pnl (r_trades r))"
  proof (intro allI impI)
    fix r assume "run e df = Inr r"
    then obtain s1 where s1: "run_upto e df (length df) = Inr s1" and g: "generate_results s1 = Inr r"
      unfolding run_Inr_iff run_state_def by blast
    from run_upto_ledger[OF s1] generate_results_fields[OF g]
    show "r_final_equity r - r_initial_capital r = sum_list (map t_pnl (r_trades r))"
      by simp
  qed
  have c: "\<forall>s' x. process_bar s df k = Inr (s', x) \<longrightarrow>
        trades s' = trades s \<and> equity s' = equity s \<or>
        (\<exists>t. trades s' = trades s @ [t] \<and> equity s' = equity s + t_pnl t)"
  proof (intro allI impI)
    fix s' x assume "process_bar s df k = Inr (s', x)"
    then show "trades s' = trades s \<and> equity s' = equity s \<or>
        (\<exists>t. trades s' = trades s @ [t] \<and> equity s' = equity s + t_pnl t)"
      by (cases rule: process_bar_cases) auto
  qed
  from a run_upto_pnl[OF assms] b c show ?thesis by blast
qed

theorem final_equity_witness:
  "run_upto demo_engine demo_df 54 =
     Inr (demo_engine\<lparr>trade_count := 1, equity := 100000 - 11 / 80, trades := [demo_trade],
                      equity_curve := replicate 53 100000 @ [100000 - 11 / 80]\<rparr>) \<and>
   (\<exists>r. run demo_engine demo_df = Inr r \<and> r_trades r = [demo_trade] \<and>
        r_final_equity r - r_initial_capital r = t_pnl demo_trade)"
proof -
  from final_equity_is_capital_plus_pnl[OF demo_upto_54]
  have "\<forall>r. run demo_engine demo_df = Inr r \<longrightarrow>
        r_final_equity r - r_initial_capital r = sum_list (map t_pnl (r_trades r))"
    by blast
  with demo_run demo_upto_54 show ?thesis by simp
qed

text \<open>
  C5. At every bar of a run the trades opened so far exceed the trades closed by one if a
  position is held and by none otherwise, so at most one position is open. A bar opens a
  trade only from an engine that holds no position and at an index of at least 20. Below
  index 20 a bar changes nothing, and a frame shorter than 20 bars leaves the engine as
  \<open>reset\<close> made it, with an empty ledger, one equity sample per bar.
\<close>

theorem one_position_and_warmup:
  assumes "run_upto e df k = Inr s"
  shows "trade_count s = length (trades s) + (case current_position s of None \<Rightarrow> 0 | Some _ \<Rightarrow> 1) \<and>
     (\<forall>s' x. process_bar s df k = Inr (s', x) \<longrightarrow> trade_count s' \<noteq> trade_count s \<longrightarrow>
        current_position s = None \<and> 20 \<le> k \<and> trade_count s' = trade_count s + 1 \<and>
        (\<exists>p. current_position s' = Some p \<and> trade_id p = trade_count s')) \<and>
     (k < 20 \<longrightarrow> check_entry_signals df k = (False, False) \<and>
        process_bar s df k = Inr (s, equity s) \<and>
        trades s = [] \<and> current_position s = None \<and> trade_count s = 0) \<and>
     (length df < 20 \<longrightarrow>
        run_state e df = Inr ((reset e)\<lparr>equity_curve := replicate (length df) (initial_capital e)\<rparr>))"
proof -
  have a: "\<forall>s' x. process_bar s df k = Inr (s', x) \<longrightarrow> trade_count s' \<noteq> trade_count s \<longrightarrow>
        current_position s = None \<and> 20 \<le> k \<and> trade_count s' = trade_count s + 1 \<and>
        (\<exists>p. current_position s' = Some p \<and> trade_id p = trade_count s')"
  proof (intro allI impI)
    fix s' x assume "process_bar s df k = Inr (s', x)" and "trade_count s' \<noteq> trade_count s"
    then show "current_position s = None \<and> 20 \<le> k \<and> trade_count s' = trade_count s + 1 \<and>
        (\<exists>p. current_position s' = Some p \<and> trade_id p = trade_count s')"
      by (cases rule: process_bar_cases) auto
  qed
  have b: "k < 20 \<longrightarrow> check_entry_signals df k = (False, False) \<and>
        process_bar s df k = Inr (s, equity s) \<and>
        trades s = [] \<and> current_position s = None \<and> trade_count s = 0"
    using run_upto_warmup[OF assms] by (simp add: process_bar_def check_entry_signals_def)
  have c: "length df < 20 \<longrightarrow>
        run_state e df = Inr ((reset e)\<lparr>equity_curve := replicate (length df) (initial_capital e)\<rparr>)"
    by (simp add: run_state_def run_upto_idle)
  from run_upto_count[OF assms] a b c show ?thesis by blast
qed

theorem one_position_witness:
  "run_upto demo_engine demo_df 50 = Inr (demo_engine\<lparr>equity_curve := replicate 50 100000\<rparr>) \<and>
   process_bar (demo_engine\<lparr>equity_curve := replicate 50 100000\<rparr>) demo_df 50 =
     Inr (demo_engine\<lparr>equity_curve := replicate 50 100000, trade_count := 1,
                      current_position := Some demo_position\<rparr>, 100000) \<and>
   current_position (demo_engine\<lparr>equity_curve := replicate 50 100000\<rparr>) = None \<and>
   (20::nat) \<le> 50 \<and>
   length (map flat_bar [0..<19]) < 20 \<and>
   run_state demo_engine (map flat_bar [0..<19]) =
     Inr ((reset demo_engine)\<lparr>equity_curve := replicate 19 100000\<rparr>)"
proof -
  have pb: "process_bar (demo_engine\<lparr>equity_curve := replicate 50 100000\<rparr>) demo_df 50 =
     Inr (demo_engine\<lparr>equity_curve := replicate 50 100000, trade_count := 1,
                      current_position := Some demo_position\<rparr>, 100000)"
    by (subst demo_process_50) (simp_all add: demo_engine_def demo_position_def)
  have "run_upto demo_engine (map flat_bar [0..<19]) 19 =
      Inr ((reset demo_engine)\<lparr>equity_curve := replicate 19 (initial_capital demo_engine)\<rparr>)"
    by (simp add: run_upto_idle)
  from one_position_and_warmup[OF this] one_position_and_warmup[OF demo_upto_50] pb demo_upto_50
  show ?thesis by (simp add: demo_engine_def)
qed

text \<open>
  C6. At every index with a prior bar the stop distance is the ATR, floored at the
  configured minimum, times the base multiplier times the regime multiplier (1.5 low, 1.0
  normal, 0.75 high), and the take-profit distance is twice the stop distance; with ATR 2,
  base multiplier 2 and the high regime they are 3 and 6. With the default base multiplier
  the trailing level is the close minus 1.5 stop distances for a long and plus 1.5 stop
  distances for a short, before the clamp against the entry price.
\<close>

theorem dynamic_stops_and_trailing_level:
  assumes "1 \<le> idx"
  shows "\<exists>sd. get_dynamic_stops params df idx bm = Some (sd, 2 * sd) \<and>
           sd = max (ATR (df ! idx)) (minimum_atr_value params) * bm *
                  (case Volatility_Regime (df ! idx) of
                     LowVol \<Rightarrow> 1.5 | NormalVol \<Rightarrow> 1 | HighVol \<Rightarrow> 0.75) \<and>
           (ATR (df ! idx) = 2 \<and> minimum_atr_value params \<le> 2 \<and> bm = 2 \<and>
            Volatility_Regime (df ! idx) = HighVol \<longrightarrow> sd = 3 \<and> 2 * sd = 6) \<and>
           (bm = 2 \<longrightarrow>
              calculate_trailing_stop params df idx Long entry =
                Inr (max (Close (df ! idx) - 1.5 * sd) (entry * 0.99)) \<and>
              calculate_trailing_stop params df idx Short entry =
                Inr (min (Close (df ! idx) + 1.5 * sd) (entry * 1.01)))"
proof -
  let ?sd = "max (ATR (df ! idx)) (minimum_atr_value params) * bm *
               (case Volatility_Regime (df ! idx) of
                  LowVol \<Rightarrow> 1.5 | NormalVol \<Rightarrow> 1 | HighVol \<Rightarrow> 0.75)"
  have stops: "get_dynamic_stops params df idx bm = Some (?sd, 2 * ?sd)"
    using assms
    by (cases "Volatility_Regime (df ! idx)")
       (simp_all add: get_dynamic_stops_def regime_multipliers_def Let_def)
  have scenario: "ATR (df ! idx) = 2 \<and> minimum_atr_value params \<le> 2 \<and> bm = 2 \<and>
      Volatility_Regime (df ! idx) = HighVol \<longrightarrow> ?sd = 3 \<and> 2 * ?sd = 6"
    by simp
  have trail: "bm = 2 \<longrightarrow>
      calculate_trailing_stop params df idx Long entry =
        Inr (max (Close (df ! idx) - 1.5 * ?sd) (entry * 0.99)) \<and>
      calculate_trailing_stop params df idx Short entry =
        Inr (min (Close (df ! idx) + 1.5 * ?sd) (entry * 1.01))"
  proof
    assume "bm = 2"
    with stops have "get_dynamic_stops params df idx 2 = Some (?sd, 2 * ?sd)" by simp
    with assms show "calculate_trailing_stop params df idx Long entry =
        Inr (max (Close (df ! idx) - 1.5 * ?sd) (entry * 0.99)) \<and>
      calculate_trailing_stop params df idx Short entry =
        Inr (min (Close (df ! idx) + 1.5 * ?sd) (entry * 1.01))"
      by (simp add: calculate_trailing_stop_def mult.commute)
  qed
  from stops scenario trail show ?thesis by blast
qed

theorem dynamic_stops_witness:
  "(1::nat) \<le> 1 \<and> ATR (fixture_df ! 1) = 2 \<and> Volatility_Regime (fixture_df ! 1) = HighVol \<and>
   minimum_atr_value default_VolatilityParams \<le> 2 \<and>
   get_dynamic_stops default_VolatilityParams fixture_df 1 2 = Some (3, 6) \<and>
   calculate_trailing_stop default_VolatilityParams fixture_df 1 Long 90 = Inr 95 \<and>
   calculate_trailing_stop default_VolatilityParams fixture_df 1 Short 110 = Inr 104"
  using dynamic_stops_and_trailing_level[of 1 default_VolatilityParams fixture_df 2 90]
    dynamic_stops_and_trailing_level[of 1 default_VolatilityParams fixture_df 2 110]
  by (simp add: fixture_df_def fixture_bar_def default_VolatilityParams_def)

text \<open>
  C7, as stated, fails in two ways. Below the volatility lookback of the entry rules the
  volatility adjustment returns the base size as it is: with a lookback of 60 the sample
  run's entry at bar 50 has size 0.1 * 0.55, a volatility-adjusted size of 0.1 outside
  [0.25, 2]. And the regime multiplier is applied before the clamp, not after it: with the
  entry bar in the high regime the size is 0.25 * 0.55 = 11/80, where clamping first and
  scaling by 0.8 afterwards would give 11/100.
\<close>

theorem position_size_warmup_and_clamp_order:
  "map_option psize (position_after demo_engine_lookback60 demo_df 51) = Some (11 / 200) \<and>
   calculate_momentum_score demo_df 50 = 1 / 10 \<and>
   (11 / 200 :: real) = 1 / 10 * (0.5 + 0.5 * \<bar>1 / 10\<bar>) \<and>
   (1 / 10 :: real) < 0.25 \<and>
   map_option psize (position_after demo_engine demo_df_high 51) = Some (11 / 80) \<and>
   Volatility_Regime (demo_df_high ! 50) = HighVol \<and>
   max (min (position_size demo_engine *
               (mean (map Historical_Volatility (slice demo_df_high 30 50)) /
                max (Historical_Volatility (demo_df_high ! 50)) 0.001)) 2) 0.25 * 0.8 *
     (0.5 + 0.5 * \<bar>calculate_momentum_score demo_df_high 50\<bar>) = 11 / 100"
proof -
  have a: "calculate_momentum_score demo_df 50 = 1 / 10" by code_simp
  have b: "Volatility_Regime (demo_df_high ! 50) = HighVol" by code_simp
  have c: "max (min (position_size demo_engine *
               (mean (map Historical_Volatility (slice demo_df_high 30 50)) /
                max (Historical_Volatility (demo_df_high ! 50)) 0.001)) 2) 0.25 * 0.8 *
     (0.5 + 0.5 * \<bar>calculate_momentum_score demo_df_high 50\<bar>) = 11 / 100"
    by code_simp
  have d: "map_option psize (position_after demo_engine_lookback60 demo_df 51) = Some (11 / 200)"
    by (simp add: position_after_def demo_upto_51_lookback60)
  have e: "map_option psize (position_after demo_engine demo_df_high 51) = Some (11 / 80)"
    by (simp add: position_after_def high_upto_51 demo_position_def)
  from a b c d e show ?thesis by simp
qed

text \<open>
  C7, amended. The size of every position the engine opens is the volatility-adjusted size
  times the momentum factor 0.5 + 0.5 * |momentum score|, which lies between 0.5 and 1. At
  an index below the volatility lookback of the entry rules the volatility-adjusted size is
  the engine's base size unchanged. From the lookback on (so at every entry when the
  lookback is at most 20, as by default) it is the base size times the ratio of the
  trailing average of historical volatility to the current one, floored at 0.001, times the
  regime multiplier (1.2 low, 1.0 normal, 0.8 high), that product then clamped to [0.25, 2].
\<close>

theorem position_size_at_entry:
  assumes "process_bar e df idx = Inr (e', x)"
    and "current_position e = None"
    and "current_position e' = Some p"
  shows "\<exists>vol_adjusted momentum_factor.
     psize p = vol_adjusted * momentum_factor \<and>
     momentum_factor = 0.5 + 0.5 * \<bar>calculate_momentum_score df idx\<bar> \<and>
     0.5 \<le> momentum_factor \<and> momentum_factor \<le> 1 \<and>
     vol_adjusted =
       (if idx < volatility_lookback (entry_rules e) then position_size e
        else max (min (position_size e *
                         (mean (map Historical_Volatility
                                  (slice df (idx - volatility_lookback (entry_rules e)) idx)) /
                          max (Historical_Volatility (df ! idx)) 0.001) *
                         (case Volatility_Regime (df ! idx) of
                            LowVol \<Rightarrow> 1.2 | NormalVol \<Rightarrow> 1 | HighVol \<Rightarrow> 0.8))
                    2) 0.25) \<and>
     (volatility_lookback (entry_rules e) \<le> idx \<longrightarrow> 0.25 \<le> vol_adjusted \<and> vol_adjusted \<le> 2) \<and>
     (volatility_lookback (entry_rules e) \<le> 20 \<longrightarrow> volatility_lookback (entry_rules e) \<le> idx)"
proof -
  let ?f = "0.5 + 0.5 * \<bar>calculate_momentum_score df idx\<bar>"
  let ?c = "max (min (position_size e *
                   (mean (map Historical_Volatility
                            (slice df (idx - volatility_lookback (entry_rules e)) idx)) /
                    max (Historical_Volatility (df ! idx)) 0.001) *
                   (case Volatility_Regime (df ! idx) of
                      LowVol \<Rightarrow> 1.2 | NormalVol \<Rightarrow> 1 | HighVol \<Rightarrow> 0.8))
              2) (0.25::real)"
  let ?v = "if idx < volatility_lookback (entry_rules e) then position_size e else ?c"
  have v: "get_volatility_adjusted_position_size (entry_rules e) df idx (position_size e) 0.25 2 = ?v"
    by (cases "Volatility_Regime (df ! idx)")
       (simp_all add: get_volatility_adjusted_position_size_def regime_adjustments_def Let_def)
  have "psize p = ?v * ?f"
    unfolding process_bar_entry(2)[OF assms] calculate_position_size_def Let_def v
    by (simp add: mult.commute)
  moreover have "0.5 \<le> ?f \<and> ?f \<le> 1"
    using momentum_factor_range[of df idx] by (simp add: mult.commute)
  moreover have "0.25 \<le> ?c" by (rule max.cobounded2)
  moreover have "?c \<le> 2" by (rule max.boundedI) simp_all
  ultimately have "psize p = ?v * ?f \<and> ?f = ?f \<and> 0.5 \<le> ?f \<and> ?f \<le> 1 \<and> ?v = ?v \<and>
      (volatility_lookback (entry_rules e) \<le> idx \<longrightarrow> 0.25 \<le> ?v \<and> ?v \<le> 2)"
    by simp
  moreover have "volatility_lookback (entry_rules e) \<le> 20 \<longrightarrow>
      volatility_lookback (entry_rules e) \<le> idx"
    using process_bar_entry(1)[OF assms] by simp
  ultimately show ?thesis by blast
qed

theorem position_size_witness:
  "process_bar (demo_engine\<lparr>equity_curve := replicate 50 100000\<rparr>) demo_df 50 =
     Inr (demo_engine\<lparr>equity_curve := replicate 50 100000, trade_count := 1,
                      current_position := Some demo_position\<rparr>, 100000) \<and>
   current_position (demo_engine\<lparr>equity_curve := replicate 50 100000\<rparr>) = None \<and>
   volatility_lookback (entry_rules (demo_engine\<lparr>equity_curve := replicate 50 100000\<rparr>)) \<le> 50 \<and>
   calculate_momentum_score demo_df 50 = 1 / 10 \<and>
   psize demo_position = 11 / 80 \<and>
   (\<exists>vol_adjusted. psize demo_position = vol_adjusted * (0.5 + 0.5 * (1 / 10)) \<and>
      0.25 \<le> vol_adjusted \<and> vol_adjusted \<le> 2)"
proof -
  let ?e = "demo_engine\<lparr>equity_curve := replicate 50 100000\<rparr>"
  let ?e' = "demo_engine\<lparr>equity_curve := replicate 50 100000, trade_count := 1,
                      current_position := Some demo_position\<rparr>"
  have pb: "process_bar ?e demo_df 50 = Inr (?e', 100000)"
    by (subst demo_process_50) (simp_all add: demo_engine_def demo_position_def)
  have cp: "current_position ?e = None" by (simp add: demo_engine_def)
  have cp': "current_position ?e' = Some demo_position" by simp
  have vl: "volatility_lookback (entry_rules ?e) \<le> 50"
    by (simp add: demo_engine_def default_VolatilityParams_def)
  have ms: "calculate_momentum_score demo_df 50 = 1 / 10" by code_simp
  have sz: "psize demo_position = 11 / 80" by (simp add: demo_position_def)
  from position_size_at_entry[OF pb cp cp']
  obtain v f where vf: "psize demo_position = v * f"
    "f = 0.5 + 0.5 * \<bar>calculate_momentum_score demo_df 50\<bar>"
    "volatility_lookback (entry_rules ?e) \<le> 50 \<longrightarrow> 0.25 \<le> v \<and> v \<le> 2"
    by blast
  from vf(1,2) have "psize demo_position = v * (0.5 + 0.5 * (1 / 10))"
    by (simp add: ms)
  moreover from vf(3) vl have "0.25 \<le> v \<and> v \<le> 2" by blast
  ultimately
  have "\<exists>vol_adjusted. psize demo_position = vol_adjusted * (0.5 + 0.5 * (1 / 10)) \<and>
      0.25 \<le> vol_adjusted \<and> vol_adjusted \<le> 2"
    by blast
  with pb cp vl ms sz show ?thesis by blast
qed

text \<open>
  C8. The two results of \<open>is_engulfing\<close> are never both true. For a first bar with open 10
  and close 8 followed by a bar with open 7 and close 11 the result is bullish only, and for
  the colour-swapped pair (open 8, close 10, then open 11, close 7) it is bearish only.
\<close>

theorem is_engulfing_exclusive_and_fixtures:
  "\<not> (fst (is_engulfing df idx) \<and> snd (is_engulfing df idx)) \<and>
   is_engulfing [b1\<lparr>Open := 10, Close := 8\<rparr>, b2\<lparr>Open := 7, Close := 11\<rparr>] 1 = (True, False) \<and>
   is_engulfing [b1\<lparr>Open := 8, Close := 10\<rparr>, b2\<lparr>Open := 11, Close := 7\<rparr>] 1 = (False, True)"
  by (simp add: is_engulfing_def Let_def)

text \<open>
  C9. What \<open>run\<close> returns does not depend on the state the engine is in when it is called,
  only on its configuration and the frame: the loop always completes, and running the
  engine again from the state a run left behind ends in the same state and the same result.
\<close>

theorem run_depends_only_on_configuration:
  "run (e\<lparr>equity := a, current_position := b, trades := c, equity_curve := d,
         trade_count := n\<rparr>) df = run e df \<and>
   (\<exists>s. run_state e df = Inr s) \<and>
   (\<forall>s. run_state e df = Inr s \<longrightarrow> run_state s df = Inr s \<and> run s df = run e df)"
proof -
  have a: "run (e\<lparr>equity := a, current_position := b, trades := c, equity_curve := d,
         trade_count := n\<rparr>) df = run e df"
    by (simp add: run_def run_state_def run_upto_def reset_reset_state)
  have b: "\<exists>s. run_state e df = Inr s"
    unfolding run_state_def by (rule run_upto_total)
  have c: "\<forall>s. run_state e df = Inr s \<longrightarrow> run_state s df = Inr s \<and> run s df = run e df"
  proof (intro allI impI)
    fix s assume s: "run_state e df = Inr s"
    then have "run_upto e df (length df) = Inr s" by (simp add: run_state_def)
    from run_upto_config[OF this] have "reset s = reset e" by (intro reset_config) simp_all
    then have "run_state s df = run_state e df"
      by (simp add: run_state_def run_upto_def)
    with s show "run_state s df = Inr s \<and> run s df = run e df"
      by (simp add: run_def)
  qed
  from a b c show ?thesis by blast
qed

theorem run_twice_witness:
  "run_state demo_engine demo_df =
     Inr (demo_engine\<lparr>trade_count := 1, equity := 100000 - 11 / 80, trades := [demo_trade],
                      equity_curve := replicate 53 100000 @ [100000 - 11 / 80]\<rparr>) \<and>
   run (demo_engine\<lparr>trade_count := 1, equity := 100000 - 11 / 80, trades := [demo_trade],
                    equity_curve := replicate 53 100000 @ [100000 - 11 / 80]\<rparr>) demo_df =
     run demo_engine demo_df \<and>
   (\<exists>r. run demo_engine demo_df = Inr r \<and> r_trades r = [demo_trade] \<and>
        r_equity_curve r = replicate 53 100000 @ [100000 - 11 / 80])"
proof -
  have rs: "run_state demo_engine demo_df =
     Inr (demo_engine\<lparr>trade_count := 1, equity := 100000 - 11 / 80, trades := [demo_trade],
                      equity_curve := replicate 53 100000 @ [100000 - 11 / 80]\<rparr>)"
    by (simp add: run_state_def demo_length demo_upto_54)
  from run_depends_only_on_configuration[where e = demo_engine and df = demo_df]
  have "run_state demo_engine demo_df =
     Inr (demo_engine\<lparr>trade_count := 1, equity := 100000 - 11 / 80, trades := [demo_trade],
                      equity_curve := replicate 53 100000 @ [100000 - 11 / 80]\<rparr>) \<longrightarrow>
   run (demo_engine\<lparr>trade_count := 1, equity := 100000 - 11 / 80, trades := [demo_trade],
                    equity_curve := replicate 53 100000 @ [100000 - 11 / 80]\<rparr>) demo_df =
     run demo_engine demo_df"
    by blast
  with rs demo_run show ?thesis by simp
qed

text \<open>
  C10. The bar on which a position is opened leaves ledger and equity untouched and stores
  the initial stop as trailing stop; the exit check first runs on the next bar. A bar that
  appends a trade starts with the position already held and ends with none, so no trade is
  opened and closed on one bar.
\<close>

theorem no_exit_on_entry_bar:
  assumes "process_bar e df i = Inr (e', x)"
    and "current_position e = None"
    and "current_position e' = Some p"
  shows "trades e' = trades e \<and> equity e' = equity e \<and> trailing_stop p = stop_loss p \<and>
     entry_time p = Date (df ! i) \<and>
     process_bar e' df (Suc i) =
       (case check_position_exit e' df (Suc i) of
          Inl err \<Rightarrow> Inl err | Inr e2 \<Rightarrow> Inr (e2, equity e2)) \<and>
     (\<forall>e0 j e1 y. process_bar e0 df j = Inr (e1, y) \<longrightarrow> trades e1 \<noteq> trades e0 \<longrightarrow>
        (\<exists>p0 t. current_position e0 = Some p0 \<and> current_position e1 = None \<and>
           trades e1 = trades e0 @ [t] \<and> t_id t = trade_id p0 \<and>
           t_entry_time t = entry_time p0 \<and> t_exit_time t = Date (df ! j)))"
proof -
  have nxt: "process_bar e' df (Suc i) =
       (case check_position_exit e' df (Suc i) of
          Inl err \<Rightarrow> Inl err | Inr e2 \<Rightarrow> Inr (e2, equity e2))"
    using assms(3) by (simp add: process_bar_def)
  have cl: "\<forall>e0 j e1 y. process_bar e0 df j = Inr (e1, y) \<longrightarrow> trades e1 \<noteq> trades e0 \<longrightarrow>
        (\<exists>p0 t. current_position e0 = Some p0 \<and> current_position e1 = None \<and>
           trades e1 = trades e0 @ [t] \<and> t_id t = trade_id p0 \<and>
           t_entry_time t = entry_time p0 \<and> t_exit_time t = Date (df ! j))"
  proof (intro allI impI)
    fix e0 j e1 y
    assume "process_bar e0 df j = Inr (e1, y)" and "trades e1 \<noteq> trades e0"
    then show "\<exists>p0 t. current_position e0 = Some p0 \<and> current_position e1 = None \<and>
           trades e1 = trades e0 @ [t] \<and> t_id t = trade_id p0 \<and>
           t_entry_time t = entry_time p0 \<and> t_exit_time t = Date (df ! j)"
      by (cases rule: process_bar_cases) auto
  qed
  from process_bar_entry(3,4,6,7)[OF assms] nxt cl show ?thesis by blast
qed

theorem no_exit_on_entry_bar_witness:
  "process_bar (demo_engine\<lparr>equity_curve := replicate 50 100000\<rparr>) demo_df 50 =
     Inr (demo_engine\<lparr>equity_curve := replicate 50 100000, trade_count := 1,
                      current_position := Some demo_position\<rparr>, 100000) \<and>
   current_position (demo_engine\<lparr>equity_curve := replicate 50 100000\<rparr>) = None \<and>
   trailing_stop demo_position = stop_loss demo_position \<and>
   entry_time demo_position = Date (demo_df ! 50) \<and>
   stop_loss demo_position = 108"
proof -
  let ?e = "demo_engine\<lparr>equity_curve := replicate 50 100000\<rparr>"
  let ?e' = "demo_engine\<lparr>equity_curve := replicate 50 100000, trade_count := 1,
                      current_position := Some demo_position\<rparr>"
  have pb: "process_bar ?e demo_df 50 = Inr (?e', 100000)"
    by (subst demo_process_50) (simp_all add: demo_engine_def demo_position_def)
  have cp: "current_position ?e = None" by (simp add: demo_engine_def)
  have cp': "current_position ?e' = Some demo_position" by simp
  from no_exit_on_entry_bar[OF pb cp cp'] pb cp show ?thesis
    by (simp add: demo_position_def)
qed

end
